theory Spec2Isabelle
  imports Main "HOL-Library.Word"
begin

unbundle bit_operations_syntax

section \<open>The envoy client (envoy.c)\<close>

text \<open>
  The client is a single sequential C program whose whole behaviour is a sequence of calls
  into libc, into the envoy library and into the gpg-agent protocol library, ended by an
  exit or by an exec.  The embedding makes that sequence explicit: every external call
  appends an \<open>event\<close> to the process state, every answer of the outside world is read
  from a \<open>world\<close> record, and every way of ending the process (\<open>exit\<close>, \<open>err\<close>,
  \<open>errx\<close>, \<open>return\<close> from \<open>main\<close>, a successful \<open>exec\<close>) is the \<open>Inl\<close> branch of a
  sum.
\<close>

subsection \<open>Data\<close>

text \<open>\<open>enum action\<close> of envoy.c.\<close>

datatype action =
    ACTION_FISH_PRINT
  | ACTION_SH_PRINT
  | ACTION_NONE
  | ACTION_FORCE_ADD
  | ACTION_CLEAR
  | ACTION_KILL
  | ACTION_LIST
  | ACTION_UNLOCK
  | ACTION_INVALID

text \<open>
  Modelled from the spec: \<open>enum agent\<close>, \<open>enum agent_status\<close> and \<open>struct agent_data_t\<close>
  are declared in lib/envoy.h, which envoy.c includes.  The constructors are the
  enumerators envoy.c names; \<open>LAST_AGENT\<close> is the not-found value of \<open>lookup_agent\<close>.
\<close>

datatype agent = AGENT_SSH_AGENT | AGENT_GPG_AGENT | AGENT_DEFAULT | LAST_AGENT

datatype agent_status =
    ENVOY_STOPPED
  | ENVOY_STARTED
  | ENVOY_RUNNING
  | ENVOY_FAILED
  | ENVOY_BADUSER

type_synonym pid_t = "32 word"

record agent_data_t =
  pid :: pid_t
  type :: agent
  status :: agent_status
  sock :: string
  gpg :: string

text \<open>The part of \<open>struct termios\<close> the client touches, and the \<open>ECHO\<close> bit of \<open>c_lflag\<close>.\<close>

record termios =
  c_lflag :: "32 word"

definition ECHO :: "32 word" where
  "ECHO = 8"

text \<open>\<open>struct passwd\<close>: only \<open>pw_dir\<close> is read; \<open>None\<close> is the null pointer.\<close>

record passwd =
  pw_dir :: "string option"

text \<open>A connection handle \<open>struct gpg_t *\<close>; a null pointer is \<open>None\<close> of \<open>gpg_t option\<close>.\<close>

type_synonym gpg_t = nat

datatype signal = SIGHUP | SIGTERM

definition EXIT_SUCCESS :: int where
  "EXIT_SUCCESS = 0"

definition EXIT_FAILURE :: int where
  "EXIT_FAILURE = 1"

subsection \<open>The outside world\<close>

text \<open>
  What the environment answers.  The functions of lib/envoy.h and lib/gpg-protocol.h
  (\<open>lookup_agent\<close>, \<open>envoy_agent\<close>, \<open>gpg_agent_connection\<close>, \<open>gpg_keyinfo\<close>,
  \<open>gpg_preset_passphrase\<close>) are called by envoy.c and defined elsewhere, as are those of
  libc; their answers are parameters.  \<open>envoy_agent\<close> gives the return value and the reply
  written to \<open>data\<close>; \<open>gpg_agent_connection\<close> gives the handle, \<open>None\<close> for a null
  pointer; \<open>gpg_keyinfo\<close> gives the fingerprints of the linked list it returns, in order;
  \<open>gpg_preset_passphrase\<close> gives its return value for a fingerprint, timeout and
  passphrase; \<open>getpwuid\<close> is the answer of \<open>getpwuid(getuid())\<close>; \<open>access\<close> says whether
  \<open>access(path, F_OK)\<close> is 0; \<open>tcgetattr\<close> is \<open>None\<close> when it fails; \<open>tcsetattr\<close>,
  \<open>execv\<close> and \<open>execlp\<close> say whether the call succeeds; \<open>stdin\<close> is what the terminal
  still holds.  \<open>ENVOY_VERSION\<close> is a macro of the build.
\<close>

record world =
  program_invocation_short_name :: string
  ENVOY_VERSION :: string
  lookup_agent :: "string \<Rightarrow> agent"
  envoy_agent :: "agent \<Rightarrow> bool \<Rightarrow> int \<times> agent_data_t"
  gpg_agent_connection :: "string \<Rightarrow> gpg_t option"
  gpg_keyinfo :: "gpg_t \<Rightarrow> string list"
  gpg_preset_passphrase :: "string \<Rightarrow> int \<Rightarrow> string \<Rightarrow> int"
  getpwuid :: "passwd option"
  access :: "string \<Rightarrow> bool"
  execv :: "string \<Rightarrow> string list \<Rightarrow> bool"
  execlp :: "string \<Rightarrow> string list \<Rightarrow> bool"
  tcgetattr :: "termios option"
  tcsetattr :: "termios \<Rightarrow> bool"
  stdin :: string

subsection \<open>Events and the process state\<close>

datatype event =
    Stdout string
  | Stderr string
  | Err string
  | Errx string
  | Warnx string
  | Envoy_agent agent bool
  | Gpg_agent_connection string "gpg_t option"
  | Gpg_update_tty "gpg_t option"
  | Gpg_keyinfo gpg_t
  | Gpg_preset_passphrase gpg_t string int string
  | Gpg_close "gpg_t option"
  | Setenv string string bool
  | Kill pid_t signal
  | Execv string "string list"
  | Execlp string "string list"
  | Tcsetattr termios
  | Atexit_term_cleanup
  | Getline

text \<open>
  \<open>events\<close> is the trace so far, oldest first; \<open>old_termios\<close> is the file-scope variable
  of that name; \<open>atexit_registered\<close> says that \<open>term_cleanup\<close> has been registered.
\<close>

record proc =
  events :: "event list"
  old_termios :: termios
  atexit_registered :: bool

datatype outcome = Exited int | Replaced

type_synonym 'a step = "(proc \<times> outcome) + (proc \<times> 'a)"

definition proc0 :: proc where
  "proc0 = \<lparr>events = [], old_termios = \<lparr>c_lflag = 0\<rparr>, atexit_registered = False\<rparr>"

definition emit :: "event \<Rightarrow> proc \<Rightarrow> proc" where
  "emit e s = s\<lparr>events := events s @ [e]\<rparr>"

text \<open>\<open>term_cleanup\<close>: restore the saved terminal attributes.\<close>

definition term_cleanup :: "proc \<Rightarrow> proc" where
  "term_cleanup s = emit (Tcsetattr (old_termios s)) s"

text \<open>
  \<open>exit(code)\<close>, also reached by returning from \<open>main\<close>: the registered exit handler
  runs, then the process is gone.
\<close>

definition exit_proc :: "int \<Rightarrow> proc \<Rightarrow> proc \<times> outcome" where
  "exit_proc code s = ((if atexit_registered s then term_cleanup s else s), Exited code)"

definition err :: "int \<Rightarrow> string \<Rightarrow> proc \<Rightarrow> proc \<times> outcome" where
  "err code msg s = exit_proc code (emit (Err msg) s)"

definition errx :: "int \<Rightarrow> string \<Rightarrow> proc \<Rightarrow> proc \<times> outcome" where
  "errx code msg s = exit_proc code (emit (Errx msg) s)"

definition warnx :: "string \<Rightarrow> proc \<Rightarrow> proc" where
  "warnx msg s = emit (Warnx msg) s"

subsection \<open>Formatting\<close>

definition NL :: string where
  "NL = [CHR 0x0A]"

definition SQ :: string where
  "SQ = [CHR 0x27]"

fun dec_nat :: "nat \<Rightarrow> string" where
  "dec_nat n =
     (if n < 10 then [char_of (48 + n)]
      else dec_nat (n div 10) @ [char_of (48 + n mod 10)])"

declare dec_nat.simps [simp del]

text \<open>\<open>printf("%d", i)\<close>.\<close>

definition fmt_d :: "int \<Rightarrow> string" where
  "fmt_d i = (if i < 0 then ''-'' @ dec_nat (nat (- i)) else dec_nat (nat i))"

text \<open>A C string ends at its first zero byte.\<close>

definition c_str :: "string \<Rightarrow> string" where
  "c_str bs = takeWhile (\<lambda>c. c \<noteq> CHR 0x00) bs"

subsection \<open>read_password\<close>

text \<open>
  \<open>getline\<close> of libc on the pending terminal input: at end of input with nothing read it
  returns -1 (\<open>None\<close>); otherwise it returns the bytes up to and including the first
  newline, or all remaining bytes when no newline comes before the end of input.
\<close>

definition getline :: "string \<Rightarrow> string option" where
  "getline inp =
     (if inp = [] then None
      else Some (takeWhile (\<lambda>c. c \<noteq> CHR 0x0A) inp
                 @ take 1 (dropWhile (\<lambda>c. c \<noteq> CHR 0x0A) inp)))"

text \<open>
  \<open>read_password\<close> returns the buffer up to the zero byte it writes at index
  \<open>--nbytes_r\<close>, and \<open>nbytes_r\<close>.
\<close>

definition read_password :: "world \<Rightarrow> proc \<Rightarrow> (string \<times> int) step" where
  "read_password w s0 =
     (let s2 = emit (Stdout ''Password: '') s0
      in case tcgetattr w of
           None \<Rightarrow> Inl (err EXIT_FAILURE ''failed to get terminal attributes'' s2)
         | Some t \<Rightarrow>
             (let s3 = s2\<lparr>old_termios := t\<rparr>;
                  s4 = (emit Atexit_term_cleanup s3)\<lparr>atexit_registered := True\<rparr>;
                  new_termios = old_termios s4;
                  new_termios = new_termios\<lparr>c_lflag := c_lflag new_termios AND NOT ECHO\<rparr>;
                  s5 = emit (Tcsetattr new_termios) s4
              in if \<not> tcsetattr w new_termios
                 then Inl (err EXIT_FAILURE ''failed to set terminal attributes'' s5)
                 else
                   (let s6 = emit Getline s5
                    in case getline (stdin w) of
                         None \<Rightarrow> Inl (errx EXIT_FAILURE ''failed to read password'' s6)
                       | Some line \<Rightarrow>
                           (let nbytes_r = int (length line) - 1;
                                password = take (nat nbytes_r) line;
                                s7 = emit (Tcsetattr (old_termios s6)) s6;
                                s8 = emit (Stdout NL) s7
                            in Inr (s8, (password, nbytes_r))))))"

subsection \<open>get_agent\<close>

definition get_agent :: "world \<Rightarrow> agent \<Rightarrow> bool \<Rightarrow> proc \<Rightarrow> (int \<times> agent_data_t) step" where
  "get_agent w id' start s0 =
     (let (ret, data) = envoy_agent w id' start;
          s1 = emit (Envoy_agent id' start) s0
      in if ret < 0 then Inl (err EXIT_FAILURE ''failed to fetch agent'' s1)
         else case status data of
                ENVOY_STOPPED \<Rightarrow> Inr (s1, (ret, data))
              | ENVOY_STARTED \<Rightarrow> Inr (s1, (ret, data))
              | ENVOY_RUNNING \<Rightarrow> Inr (s1, (ret, data))
              | ENVOY_FAILED \<Rightarrow>
                  Inl (errx EXIT_FAILURE
                         (''agent failed to start, check envoyd'' @ SQ @ ''s log'') s1)
              | ENVOY_BADUSER \<Rightarrow>
                  Inl (errx EXIT_FAILURE
                         ''connection rejected, user is unauthorized to use this agent'' s1))"

subsection \<open>get_key_path and add_keys\<close>

definition get_key_path :: "world \<Rightarrow> string \<Rightarrow> string \<Rightarrow> string" where
  "get_key_path w home fragment =
     (if access w fragment then fragment
      else home @ ''/.ssh/'' @ fragment)"

text \<open>\<open>keys\<close> is \<open>keys[0 .. count - 1]\<close>.  The function never returns.\<close>

definition add_keys :: "world \<Rightarrow> string list \<Rightarrow> proc \<Rightarrow> proc \<times> outcome" where
  "add_keys w keys s =
     (case getpwuid w of
        None \<Rightarrow> err EXIT_FAILURE ''failed to lookup passwd entry'' s
      | Some pwd \<Rightarrow>
          (case pw_dir pwd of
             None \<Rightarrow> err EXIT_FAILURE ''failed to lookup passwd entry'' s
           | Some home \<Rightarrow>
               (let args = [''/usr/bin/ssh-add'', ''--''] @ map (get_key_path w home) keys;
                    s1 = emit (Execv ''/usr/bin/ssh-add'' args) s
                in if execv w ''/usr/bin/ssh-add'' args then (s1, Replaced)
                   else err EXIT_FAILURE ''failed to launch ssh-add'' s1)))"

subsection \<open>print_sh_env, print_fish_env and source_env\<close>

definition print_sh_env :: "agent_data_t \<Rightarrow> proc \<Rightarrow> proc" where
  "print_sh_env data s0 =
     (let s1 = (if type data = AGENT_GPG_AGENT
                then emit (Stdout (''export GPG_AGENT_INFO='' @ SQ @ gpg data @ SQ @ NL)) s0
                else s0);
          s2 = emit (Stdout (''export SSH_AUTH_SOCK='' @ SQ @ sock data @ SQ @ NL)) s1
      in emit (Stdout (''export SSH_AGENT_PID='' @ SQ @ fmt_d (sint (pid data)) @ SQ @ NL)) s2)"

definition print_fish_env :: "agent_data_t \<Rightarrow> proc \<Rightarrow> proc" where
  "print_fish_env data s0 =
     (let s1 = (if type data = AGENT_GPG_AGENT
                then emit (Stdout (''set -x GPG_AGENT_INFO '' @ SQ @ gpg data @ SQ @ '';'')) s0
                else s0);
          s2 = emit (Stdout (''set -x SSH_AUTH_SOCK '' @ SQ @ sock data @ SQ @ '';'')) s1
      in emit (Stdout (''set -x SSH_AGENT_PID '' @ SQ @ fmt_d (sint (pid data)) @ SQ @ '';'')) s2)"

definition source_env :: "world \<Rightarrow> agent_data_t \<Rightarrow> proc \<Rightarrow> proc" where
  "source_env w data s0 =
     (let s1 = (if type data = AGENT_GPG_AGENT
                then (let agent = gpg_agent_connection w (gpg data);
                          sa = emit (Gpg_agent_connection (gpg data) agent) s0;
                          sb = emit (Gpg_update_tty agent) sa
                      in emit (Gpg_close agent) sb)
                else s0)
      in emit (Setenv ''SSH_AUTH_SOCK'' (sock data) True) s1)"

subsection \<open>unlock\<close>

text \<open>
  The \<open>for\<close> loop of \<open>unlock\<close> over the list \<open>gpg_keyinfo\<close> returned.  \<open>Some r\<close> is a
  \<open>return r\<close> from inside the loop, \<open>None\<close> is the loop running to its end.
\<close>

fun unlock_loop :: "world \<Rightarrow> gpg_t \<Rightarrow> string \<Rightarrow> string list \<Rightarrow> proc \<Rightarrow> proc \<times> int option" where
  "unlock_loop w agent password [] s = (s, None)"
| "unlock_loop w agent password (fingerprint # fgpt) s =
     (let s1 = emit (Gpg_preset_passphrase agent fingerprint (- 1) password) s
      in if gpg_preset_passphrase w fingerprint (- 1) password < 0
         then (warnx (''failed to unlock key '' @ SQ @ fingerprint @ SQ) s1, Some 1)
         else unlock_loop w agent password fgpt s1)"

definition unlock :: "world \<Rightarrow> agent_data_t \<Rightarrow> string option \<Rightarrow> proc \<Rightarrow> int step" where
  "unlock w data password s0 =
     (let agent = gpg_agent_connection w (gpg data);
          s1 = emit (Gpg_agent_connection (gpg data) agent) s0
      in case agent of
           None \<Rightarrow> Inl (err EXIT_FAILURE ''failed to open connection to gpg-agent'' s1)
         | Some a \<Rightarrow>
             (case (case password of
                      Some p \<Rightarrow> Inr (s1, p)
                    | None \<Rightarrow>
                        (case read_password w s1 of
                           Inl e \<Rightarrow> Inl e
                         | Inr (s, (p, n)) \<Rightarrow> Inr (s, c_str p))) of
                Inl e \<Rightarrow> Inl e
              | Inr (s2, pw) \<Rightarrow>
                  (let s3 = emit (Gpg_keyinfo a) s2
                   in case unlock_loop w a pw (gpg_keyinfo w a) s3 of
                        (s4, Some r) \<Rightarrow> Inr (s4, r)
                      | (s4, None) \<Rightarrow> Inr (emit (Gpg_close (Some a)) s4, 0))))"

subsection \<open>usage and main\<close>

definition usage_options :: string where
  "usage_options =
     ''Options:'' @ NL @
     '' -h, --help            display this help'' @ NL @
     '' -v, --version         display version'' @ NL @
     '' -a, --add             add private key identities'' @ NL @
     '' -k, --clear           force identities to expire (gpg-agent only)'' @ NL @
     '' -K, --kill            kill the running agent'' @ NL @
     '' -l, --list            list fingerprints of all loaded identities'' @ NL @
     '' -u, --unlock=[PASS]   unlock the agent'' @ SQ @ ''s keyring (gpg-agent only)'' @ NL @
     '' -p, --print           print out sh environmental arguments'' @ NL @
     '' -f, --fish            print out fish environmental arguments'' @ NL @
     '' -t, --agent=AGENT     set the prefered to start'' @ NL"

text \<open>\<open>usage(out)\<close>; \<open>to_stderr\<close> is \<open>out == stderr\<close>.\<close>

definition usage :: "world \<Rightarrow> bool \<Rightarrow> proc \<Rightarrow> proc \<times> outcome" where
  "usage w to_stderr s0 =
     (let out = (if to_stderr then Stderr else Stdout);
          s1 = emit (out (''usage: '' @ program_invocation_short_name w
                          @ '' [options] [key ...]'' @ NL)) s0;
          s2 = emit (out usage_options) s1
      in exit_proc (if to_stderr then EXIT_FAILURE else EXIT_SUCCESS) s2)"

text \<open>
  One return value of \<open>getopt_long\<close> for the option table of \<open>main\<close>, with \<open>optarg\<close> where
  the option takes one: \<open>Opt_u None\<close> is \<open>-u\<close> without a passphrase, \<open>Opt_other\<close> is any
  value that reaches the \<open>default\<close> branch (\<open>'?'\<close> for an unknown flag).
\<close>

datatype optchar =
    Opt_h | Opt_v | Opt_a | Opt_k | Opt_K | Opt_l
  | Opt_u "string option"
  | Opt_p | Opt_f
  | Opt_t string
  | Opt_other

text \<open>The local variables of \<open>main\<close> that the option loop sets (\<open>req_type\<close> is \<open>type\<close>).\<close>

record locals =
  source :: bool
  password :: "string option"
  verb :: action
  req_type :: agent

definition locals0 :: locals where
  "locals0 = \<lparr>source = True, password = None, verb = ACTION_NONE, req_type = AGENT_DEFAULT\<rparr>"

text \<open>The \<open>while (true)\<close> loop of \<open>main\<close> over the values \<open>getopt_long\<close> returns until -1.\<close>

fun main_getopt :: "world \<Rightarrow> optchar list \<Rightarrow> locals \<Rightarrow> proc \<Rightarrow> locals step" where
  "main_getopt w [] l s = Inr (s, l)"
| "main_getopt w (opt # rest) l s =
     (case opt of
        Opt_h \<Rightarrow> Inl (usage w False s)
      | Opt_v \<Rightarrow>
          Inl (exit_proc 0
                 (emit (Stdout (program_invocation_short_name w @ '' '' @ ENVOY_VERSION w @ NL)) s))
      | Opt_a \<Rightarrow> main_getopt w rest (l\<lparr>verb := ACTION_FORCE_ADD\<rparr>) s
      | Opt_k \<Rightarrow> main_getopt w rest (l\<lparr>verb := ACTION_CLEAR, source := False\<rparr>) s
      | Opt_K \<Rightarrow> main_getopt w rest (l\<lparr>verb := ACTION_KILL, source := False\<rparr>) s
      | Opt_l \<Rightarrow> main_getopt w rest (l\<lparr>verb := ACTION_LIST\<rparr>) s
      | Opt_u optarg \<Rightarrow> main_getopt w rest (l\<lparr>verb := ACTION_UNLOCK, password := optarg\<rparr>) s
      | Opt_p \<Rightarrow> main_getopt w rest (l\<lparr>verb := ACTION_SH_PRINT\<rparr>) s
      | Opt_f \<Rightarrow> main_getopt w rest (l\<lparr>verb := ACTION_FISH_PRINT\<rparr>) s
      | Opt_t optarg \<Rightarrow>
          (let t = lookup_agent w optarg
           in if t = LAST_AGENT
              then Inl (errx EXIT_FAILURE (''unknown agent: '' @ optarg) s)
              else main_getopt w rest (l\<lparr>req_type := t\<rparr>) s)
      | Opt_other \<Rightarrow> Inl (usage w True s))"

text \<open>
  \<open>main\<close>: \<open>opts\<close> are the options \<open>getopt_long\<close> finds, in order; \<open>keys\<close> is
  \<open>argv[optind .. argc - 1]\<close>, the arguments left after the options.
\<close>

definition main :: "world \<Rightarrow> optchar list \<Rightarrow> string list \<Rightarrow> proc \<times> outcome" where
  "main w opts keys =
     (case main_getopt w opts locals0 proc0 of
        Inl e \<Rightarrow> e
      | Inr (s0, l) \<Rightarrow>
          (case get_agent w (req_type l) (source l) s0 of
             Inl e \<Rightarrow> e
           | Inr (s1, (ret, data)) \<Rightarrow>
               if ret < 0
               then errx EXIT_FAILURE ''recieved no data, did the agent fail to start?'' s1
               else if status data = ENVOY_STOPPED then exit_proc 0 s1
               else
                 (let s2 = (if source l then source_env w data s1 else s1);
                      s3 = (if verb l = ACTION_SH_PRINT then print_sh_env data s2
                            else if verb l = ACTION_FISH_PRINT then print_fish_env data s2
                            else s2)
                  in case verb l of
                       ACTION_NONE \<Rightarrow>
                         if status data = ENVOY_RUNNING \<or> type data = AGENT_GPG_AGENT
                         then exit_proc 0 s3
                         else add_keys w keys s3
                     | ACTION_FORCE_ADD \<Rightarrow> add_keys w keys s3
                     | ACTION_CLEAR \<Rightarrow>
                         if type data = AGENT_GPG_AGENT
                         then exit_proc 0 (emit (Kill (pid data) SIGHUP) s3)
                         else errx EXIT_FAILURE ''only gpg-agent supports this operation'' s3
                     | ACTION_KILL \<Rightarrow> exit_proc 0 (emit (Kill (pid data) SIGTERM) s3)
                     | ACTION_LIST \<Rightarrow>
                         (let s4 = emit (Execlp ''ssh-add'' [''ssh-add'', ''-l'']) s3
                          in if execlp w ''ssh-add'' [''ssh-add'', ''-l''] then (s4, Replaced)
                             else err EXIT_FAILURE ''failed to launch ssh-add'' s4)
                     | ACTION_UNLOCK \<Rightarrow>
                         (case unlock w data (password l) s3 of
                            Inl e \<Rightarrow> e
                          | Inr (s4, r) \<Rightarrow> exit_proc 0 s4)
                     | _ \<Rightarrow> exit_proc 0 s3)))"

subsection \<open>What the claims speak about\<close>

text \<open>
  The variables a print emits, in order, as the specification lists them: \<open>GPG_AGENT_INFO\<close>
  only for a gpg-agent reply, then \<open>SSH_AUTH_SOCK\<close>, then \<open>SSH_AGENT_PID\<close>; and the two
  renderings of one variable, the value between single quotes as it is.
\<close>

definition env_vars :: "agent_data_t \<Rightarrow> (string \<times> string) list" where
  "env_vars data =
     (if type data = AGENT_GPG_AGENT then [(''GPG_AGENT_INFO'', gpg data)] else [])
     @ [(''SSH_AUTH_SOCK'', sock data), (''SSH_AGENT_PID'', fmt_d (sint (pid data)))]"

definition sh_line :: "string \<times> string \<Rightarrow> string" where
  "sh_line nv = ''export '' @ fst nv @ ''='' @ SQ @ snd nv @ SQ @ NL"

definition fish_line :: "string \<times> string \<Rightarrow> string" where
  "fish_line nv = ''set -x '' @ fst nv @ '' '' @ SQ @ snd nv @ SQ @ '';''"

text \<open>The passphrase and the count \<open>read_password\<close> returns, when it returns.\<close>

definition password_of :: "(string \<times> int) step \<Rightarrow> string option" where
  "password_of r = (case r of Inl e \<Rightarrow> None | Inr (s, (p, n)) \<Rightarrow> Some p)"

definition nbytes_of :: "(string \<times> int) step \<Rightarrow> int option" where
  "nbytes_of r = (case r of Inl e \<Rightarrow> None | Inr (s, (p, n)) \<Rightarrow> Some n)"

text \<open>
  The process state after \<open>get_agent\<close> has sent the request, and after the
  \<open>if (source) source_env(&data)\<close> of \<open>main\<close>.
\<close>

definition requested :: "locals \<Rightarrow> proc" where
  "requested l = emit (Envoy_agent (req_type l) (source l)) proc0"

definition after_source_env :: "world \<Rightarrow> locals \<Rightarrow> agent_data_t \<Rightarrow> proc" where
  "after_source_env w l data =
     (if source l then source_env w data (requested l) else requested l)"

text \<open>Projections of a trace: the exec calls, the \<open>setenv\<close> calls, the supervisor requests.\<close>

definition exec_calls :: "event list \<Rightarrow> event list" where
  "exec_calls es = filter (\<lambda>e. case e of Execv p a \<Rightarrow> True | Execlp p a \<Rightarrow> True | _ \<Rightarrow> False) es"

definition is_setenv :: "event \<Rightarrow> bool" where
  "is_setenv e = (case e of Setenv n v b \<Rightarrow> True | _ \<Rightarrow> False)"

definition is_request :: "event \<Rightarrow> bool" where
  "is_request e = (case e of Envoy_agent i b \<Rightarrow> True | _ \<Rightarrow> False)"

text \<open>
  \<open>preset_ok\<close>: \<open>gpg_preset_passphrase\<close> does not fail for this fingerprint.
  \<open>unlock_events\<close>: what the unlock loop and the end of \<open>unlock\<close> do for a list of
  fingerprints: a preset for every fingerprint before the first failing one; then either the
  close of the connection (no failure), or the failing preset and its warning.
\<close>

definition preset_ok :: "world \<Rightarrow> string \<Rightarrow> string \<Rightarrow> bool" where
  "preset_ok w pw f = (\<not> gpg_preset_passphrase w f (- 1) pw < 0)"

definition unlock_events :: "world \<Rightarrow> gpg_t \<Rightarrow> string \<Rightarrow> string list \<Rightarrow> event list" where
  "unlock_events w a pw fps =
     map (\<lambda>f. Gpg_preset_passphrase a f (- 1) pw) (takeWhile (preset_ok w pw) fps)
     @ (case dropWhile (preset_ok w pw) fps of
          [] \<Rightarrow> [Gpg_close (Some a)]
        | f # rest \<Rightarrow>
            [Gpg_preset_passphrase a f (- 1) pw,
             Warnx (''failed to unlock key '' @ SQ @ f @ SQ)])"

text \<open>
  The fingerprints a trace presets, in order; and the connections a trace leaves open
  (opened by \<open>gpg_agent_connection\<close>, not yet closed by \<open>gpg_close\<close>).
\<close>

fun preset_attempts :: "event list \<Rightarrow> string list" where
  "preset_attempts [] = []"
| "preset_attempts (Gpg_preset_passphrase a f t p # es) = f # preset_attempts es"
| "preset_attempts (e # es) = preset_attempts es"

fun open_conns :: "event list \<Rightarrow> gpg_t list \<Rightarrow> gpg_t list" where
  "open_conns [] opened = opened"
| "open_conns (Gpg_agent_connection p (Some a) # es) opened = open_conns es (a # opened)"
| "open_conns (Gpg_close (Some a) # es) opened = open_conns es (remove1 a opened)"
| "open_conns (e # es) opened = open_conns es opened"

subsection \<open>Concrete scenarios\<close>

text \<open>
  The replies of the end-to-end scenarios of the specification, and a world around them: the
  supervisor answers with \<open>data\<close>, the gpg-agent accepts the connection and lists the
  fingerprints \<open>fps\<close>, a preset fails exactly for the fingerprints in \<open>bad\<close>, the home
  directory is \<open>/home/alice\<close>, only \<open>id_rsa\<close> exists in the working directory, and the
  terminal holds \<open>inp\<close>.
\<close>

definition ssh_reply :: "agent_status \<Rightarrow> agent_data_t" where
  "ssh_reply st = \<lparr>pid = 4321, type = AGENT_SSH_AGENT, status = st,
     sock = ''/run/user/1000/ssh-XXXX/agent.4320'', gpg = ''''\<rparr>"

definition gpg_reply :: "agent_status \<Rightarrow> agent_data_t" where
  "gpg_reply st = \<lparr>pid = 1234, type = AGENT_GPG_AGENT, status = st,
     sock = ''/run/user/1000/gnupg/S.gpg-agent.ssh'',
     gpg = ''/run/user/1000/gnupg/S.gpg-agent:1234:1''\<rparr>"

definition scenario :: "agent_data_t \<Rightarrow> string list \<Rightarrow> string list \<Rightarrow> string \<Rightarrow> world" where
  "scenario data fps bad inp =
     \<lparr>program_invocation_short_name = ''envoy'',
      ENVOY_VERSION = ''1'',
      lookup_agent = (\<lambda>name. if name = ''ssh-agent'' then AGENT_SSH_AGENT
                              else if name = ''gpg-agent'' then AGENT_GPG_AGENT
                              else LAST_AGENT),
      envoy_agent = (\<lambda>kind start. (0, data)),
      gpg_agent_connection = (\<lambda>path. Some 3),
      gpg_keyinfo = (\<lambda>a. fps),
      gpg_preset_passphrase = (\<lambda>f t p. if f \<in> set bad then - 1 else 0),
      getpwuid = Some \<lparr>pw_dir = Some ''/home/alice''\<rparr>,
      access = (\<lambda>path. path = ''id_rsa''),
      execv = (\<lambda>path args. True),
      execlp = (\<lambda>file args. True),
      tcgetattr = Some \<lparr>c_lflag = 0x8A3B\<rparr>,
      tcsetattr = (\<lambda>t. True),
      stdin = inp\<rparr>"

section \<open>Properties\<close>

subsection \<open>The concrete scenarios\<close>

lemma scenario_simps:
  "envoy_agent (scenario data fps bad inp) kind start = (0, data)"
  "gpg_agent_connection (scenario data fps bad inp) path = Some 3"
  "gpg_keyinfo (scenario data fps bad inp) a = fps"
  "gpg_preset_passphrase (scenario data fps bad inp) f t p = (if f \<in> set bad then - 1 else 0)"
  "getpwuid (scenario data fps bad inp) = Some \<lparr>pw_dir = Some ''/home/alice''\<rparr>"
  "access (scenario data fps bad inp) path = (path = ''id_rsa'')"
  "execv (scenario data fps bad inp) path args = True"
  "tcgetattr (scenario data fps bad inp) = Some \<lparr>c_lflag = 0x8A3B\<rparr>"
  "tcsetattr (scenario data fps bad inp) tio = True"
  "stdin (scenario data fps bad inp) = inp"
  by (simp_all add: scenario_def)

lemma reply_simps:
  "type (ssh_reply st) = AGENT_SSH_AGENT"
  "type (gpg_reply st) = AGENT_GPG_AGENT"
  "status (ssh_reply st) = st"
  "status (gpg_reply st) = st"
  "pid (ssh_reply st) = 4321"
  "pid (gpg_reply st) = 1234"
  "sock (ssh_reply st) = ''/run/user/1000/ssh-XXXX/agent.4320''"
  "sock (gpg_reply st) = ''/run/user/1000/gnupg/S.gpg-agent.ssh''"
  "gpg (ssh_reply st) = []"
  "gpg (gpg_reply st) = ''/run/user/1000/gnupg/S.gpg-agent:1234:1''"
  by (simp_all add: ssh_reply_def gpg_reply_def)

lemma fmt_d_examples:
  "fmt_d (sint (4321 :: 32 word)) = ''4321''"
  "fmt_d (sint (1234 :: 32 word)) = ''1234''"
  "fmt_d 4321 = ''4321''"
  "fmt_d 1234 = ''1234''"
  by code_simp+

subsection \<open>The option loop and the reply\<close>

lemma main_getopt_state:
  "main_getopt w opts l s = Inr (s', l') \<Longrightarrow> s' = s"
  by (induction opts arbitrary: l) (auto split: optchar.splits if_splits simp: Let_def)

lemma main_getopt_source:
  "main_getopt w opts l s = Inr (s', l') \<Longrightarrow>
     source l' = (source l \<and> Opt_k \<notin> set opts \<and> Opt_K \<notin> set opts)"
  by (induction opts arbitrary: l) (auto split: optchar.splits if_splits simp: Let_def)

lemma main_getopt_verb_source:
  "main_getopt w opts l s = Inr (s', l') \<Longrightarrow>
     (verb l = ACTION_CLEAR \<or> verb l = ACTION_KILL \<longrightarrow> \<not> source l) \<Longrightarrow>
     (verb l' = ACTION_CLEAR \<or> verb l' = ACTION_KILL \<longrightarrow> \<not> source l')"
proof (induction opts arbitrary: l)
  case Nil
  then show ?case by simp
next
  case (Cons opt rest)
  show ?case
  proof (cases opt)
    case (Opt_t x)
    with Cons.prems show ?thesis
      by (auto simp: Let_def split: if_splits dest!: Cons.IH)
  qed (use Cons.prems in \<open>auto dest!: Cons.IH\<close>)
qed

lemma get_agent_reply:
  assumes "envoy_agent w i st = (ret, data)" "0 \<le> ret"
  shows "get_agent w i st s =
     (if status data = ENVOY_FAILED
      then Inl (errx EXIT_FAILURE (''agent failed to start, check envoyd'' @ SQ @ ''s log'')
                  (emit (Envoy_agent i st) s))
      else if status data = ENVOY_BADUSER
      then Inl (errx EXIT_FAILURE ''connection rejected, user is unauthorized to use this agent''
                  (emit (Envoy_agent i st) s))
      else Inr (emit (Envoy_agent i st) s, (ret, data)))"
  using assms by (cases "status data") (simp_all add: get_agent_def)

lemma main_reply:
  assumes "main_getopt w opts locals0 proc0 = Inr (s0, l)"
    and "envoy_agent w (req_type l) (source l) = (ret, data)" "0 \<le> ret"
  shows "main w opts keys =
     (case get_agent w (req_type l) (source l) proc0 of
        Inl e \<Rightarrow> e
      | Inr (s1, (ret, data)) \<Rightarrow>
          if status data = ENVOY_STOPPED then exit_proc 0 s1
          else
            (let s2 = (if source l then source_env w data s1 else s1);
                 s3 = (if verb l = ACTION_SH_PRINT then print_sh_env data s2
                       else if verb l = ACTION_FISH_PRINT then print_fish_env data s2
                       else s2)
             in case verb l of
                  ACTION_NONE \<Rightarrow>
                    if status data = ENVOY_RUNNING \<or> type data = AGENT_GPG_AGENT
                    then exit_proc 0 s3
                    else add_keys w keys s3
                | ACTION_FORCE_ADD \<Rightarrow> add_keys w keys s3
                | ACTION_CLEAR \<Rightarrow>
                    if type data = AGENT_GPG_AGENT
                    then exit_proc 0 (emit (Kill (pid data) SIGHUP) s3)
                    else errx EXIT_FAILURE ''only gpg-agent supports this operation'' s3
                | ACTION_KILL \<Rightarrow> exit_proc 0 (emit (Kill (pid data) SIGTERM) s3)
                | ACTION_LIST \<Rightarrow>
                    (let s4 = emit (Execlp ''ssh-add'' [''ssh-add'', ''-l'']) s3
                     in if execlp w ''ssh-add'' [''ssh-add'', ''-l''] then (s4, Replaced)
                        else err EXIT_FAILURE ''failed to launch ssh-add'' s4)
                | ACTION_UNLOCK \<Rightarrow>
                    (case unlock w data (password l) s3 of
                       Inl e \<Rightarrow> e
                     | Inr (s4, r) \<Rightarrow> exit_proc 0 s4)
                | _ \<Rightarrow> exit_proc 0 s3))"
proof -
  have "s0 = proc0" using main_getopt_state [OF assms(1)] .
  with assms show ?thesis
    by (simp add: main_def get_agent_reply [OF assms(2,3)])
qed

lemma exec_calls_simps [simp]:
  "exec_calls [] = []"
  "exec_calls (es @ es') = exec_calls es @ exec_calls es'"
  "exec_calls (Stdout x # es) = exec_calls es"
  "exec_calls (Envoy_agent i b # es) = exec_calls es"
  "exec_calls (Gpg_agent_connection p c # es) = exec_calls es"
  "exec_calls (Gpg_update_tty c # es) = exec_calls es"
  "exec_calls (Gpg_close c # es) = exec_calls es"
  "exec_calls (Setenv n v b # es) = exec_calls es"
  by (simp_all add: exec_calls_def)

lemma exec_calls_after_source_env: "exec_calls (events (after_source_env w l data)) = []"
  by (simp add: after_source_env_def requested_def source_env_def emit_def proc0_def Let_def)

lemma not_registered_after_source_env: "\<not> atexit_registered (after_source_env w l data)"
  by (simp add: after_source_env_def requested_def source_env_def emit_def proc0_def Let_def)

lemma add_keys_home:
  assumes "getpwuid w = Some pwd" "pw_dir pwd = Some home"
  shows "add_keys w keys s =
     (let args = ''/usr/bin/ssh-add'' # ''--'' #
                   map (\<lambda>k. if access w k then k else home @ ''/.ssh/'' @ k) keys;
          s1 = emit (Execv ''/usr/bin/ssh-add'' args) s
      in if execv w ''/usr/bin/ssh-add'' args then (s1, Replaced)
         else err EXIT_FAILURE ''failed to launch ssh-add'' s1)"
proof -
  have "get_key_path w home = (\<lambda>k. if access w k then k else home @ ''/.ssh/'' @ k)"
    by (rule ext) (simp add: get_key_path_def)
  with assms show ?thesis by (simp add: add_keys_def)
qed

subsection \<open>Events a filter rejects\<close>

text \<open>
  A filter that rejects every event a function can add sees the same trace before
  and after the function.
\<close>

lemma filter_emit: "filter P (events (emit e s)) = filter P (events s) @ filter P [e]"
  by (simp add: emit_def)

lemma filter_exit_proc:
  "(\<And>t. \<not> P (Tcsetattr t)) \<Longrightarrow> filter P (events (fst (exit_proc c s))) = filter P (events s)"
  by (simp add: exit_proc_def term_cleanup_def emit_def)

lemma filter_err:
  "(\<And>t. \<not> P (Tcsetattr t)) \<Longrightarrow> (\<And>m. \<not> P (Err m)) \<Longrightarrow>
     filter P (events (fst (err c msg s))) = filter P (events s)"
  by (simp add: err_def filter_exit_proc filter_emit)

lemma filter_errx:
  "(\<And>t. \<not> P (Tcsetattr t)) \<Longrightarrow> (\<And>m. \<not> P (Errx m)) \<Longrightarrow>
     filter P (events (fst (errx c msg s))) = filter P (events s)"
  by (simp add: errx_def filter_exit_proc filter_emit)

lemma filter_add_keys:
  assumes "\<And>t. \<not> P (Tcsetattr t)" "\<And>m. \<not> P (Err m)" "\<And>p a. \<not> P (Execv p a)"
  shows "filter P (events (fst (add_keys w keys s))) = filter P (events s)"
  using assms
  by (simp add: add_keys_def Let_def filter_err filter_emit split: option.splits)

lemma filter_print_sh_env:
  "(\<And>x. \<not> P (Stdout x)) \<Longrightarrow> filter P (events (print_sh_env data s)) = filter P (events s)"
  by (simp add: print_sh_env_def Let_def filter_emit)

lemma filter_print_fish_env:
  "(\<And>x. \<not> P (Stdout x)) \<Longrightarrow> filter P (events (print_fish_env data s)) = filter P (events s)"
  by (simp add: print_fish_env_def Let_def filter_emit)

lemma filter_source_env:
  assumes "\<And>p c. \<not> P (Gpg_agent_connection p c)" "\<And>c. \<not> P (Gpg_update_tty c)"
    "\<And>c. \<not> P (Gpg_close c)" "\<And>n v b. \<not> P (Setenv n v b)"
  shows "filter P (events (source_env w data s)) = filter P (events s)"
  using assms by (simp add: source_env_def Let_def filter_emit)

lemma filter_unlock_loop:
  assumes "\<And>a f t p. \<not> P (Gpg_preset_passphrase a f t p)" "\<And>m. \<not> P (Warnx m)"
  shows "filter P (events (fst (unlock_loop w a pw fps s))) = filter P (events s)"
  using assms
  by (induction fps arbitrary: s) (simp_all add: Let_def warnx_def filter_emit)

lemma filter_read_password:
  assumes "\<And>t. \<not> P (Tcsetattr t)" "\<And>m. \<not> P (Err m)" "\<And>m. \<not> P (Errx m)"
    "\<And>x. \<not> P (Stdout x)" "\<not> P Atexit_term_cleanup" "\<not> P Getline"
  shows "read_password w s = Inl (s', oc) \<Longrightarrow> filter P (events s') = filter P (events s)"
    and "read_password w s = Inr (s', r) \<Longrightarrow> filter P (events s') = filter P (events s)"
proof -
  assume "read_password w s = Inl (s', oc)"
  then show "filter P (events s') = filter P (events s)"
    using assms
    by (auto simp: read_password_def Let_def err_def errx_def exit_proc_def term_cleanup_def
        emit_def split: option.splits if_splits)
next
  assume "read_password w s = Inr (s', r)"
  then show "filter P (events s') = filter P (events s)"
    using assms
    by (auto simp: read_password_def Let_def emit_def split: option.splits if_splits)
qed

lemma filter_unlock:
  assumes "\<And>t. \<not> P (Tcsetattr t)" "\<And>m. \<not> P (Err m)" "\<And>m. \<not> P (Errx m)"
    "\<And>x. \<not> P (Stdout x)" "\<not> P Atexit_term_cleanup" "\<not> P Getline"
    "\<And>a f t p. \<not> P (Gpg_preset_passphrase a f t p)" "\<And>m. \<not> P (Warnx m)"
    "\<And>p c. \<not> P (Gpg_agent_connection p c)" "\<And>c. \<not> P (Gpg_close c)"
    "\<And>a. \<not> P (Gpg_keyinfo a)"
  shows "unlock w data pwo s = Inl (s', oc) \<Longrightarrow> filter P (events s') = filter P (events s)"
    and "unlock w data pwo s = Inr (s', r) \<Longrightarrow> filter P (events s') = filter P (events s)"
proof -
  note rp = filter_read_password [of P, OF assms(1-6)]
  note ul = filter_unlock_loop [of P, OF assms(7,8)]
  {
    assume "unlock w data pwo s = Inl (s', oc)"
    then show "filter P (events s') = filter P (events s)"
      using assms(1,2,9)
      by (auto simp: unlock_def Let_def filter_emit err_def exit_proc_def term_cleanup_def emit_def
          split: option.splits sum.splits prod.splits dest!: rp(1))
  next
    assume u: "unlock w data pwo s = Inr (s', r)"
    show "filter P (events s') = filter P (events s)"
    proof (cases pwo)
      case None
      with u assms(9,10,11) show ?thesis
        apply (clarsimp simp: unlock_def Let_def split: option.splits sum.splits prod.splits)
         apply (frule rp(2))
         apply (metis ul filter_emit fst_conv append_Nil2 filter.simps)
        apply (frule rp(2))
        apply (metis ul filter_emit fst_conv append_Nil2 filter.simps)
        done
    next
      case (Some p)
      with u assms(9,10,11) show ?thesis
        apply (clarsimp simp: unlock_def Let_def split: option.splits sum.splits prod.splits)
         apply (metis ul filter_emit fst_conv append_Nil2 filter.simps)
        apply (metis ul filter_emit fst_conv append_Nil2 filter.simps)
        done
    qed
  }
qed

lemma filter_main:
  assumes P: "\<And>t. \<not> P (Tcsetattr t)" "\<And>m. \<not> P (Err m)" "\<And>m. \<not> P (Errx m)"
    "\<And>x. \<not> P (Stdout x)" "\<not> P Atexit_term_cleanup" "\<not> P Getline"
    "\<And>a f t p. \<not> P (Gpg_preset_passphrase a f t p)" "\<And>m. \<not> P (Warnx m)"
    "\<And>p c. \<not> P (Gpg_agent_connection p c)" "\<And>c. \<not> P (Gpg_close c)"
    "\<And>a. \<not> P (Gpg_keyinfo a)"
  and Q: "\<And>p a. \<not> P (Execv p a)" "\<And>p a. \<not> P (Execlp p a)"
    "\<And>p sg. \<not> P (Kill p sg)" "\<And>c. \<not> P (Gpg_update_tty c)"
  and S: "\<And>n v b. source l \<Longrightarrow> \<not> P (Setenv n v b)"
  and parse: "main_getopt w opts locals0 proc0 = Inr (s0, l)"
  shows "filter P (events (fst (main w opts keys))) =
           filter P [Envoy_agent (req_type l) (source l)]"
proof -
  have s0: "s0 = proc0" using main_getopt_state [OF parse] .
  obtain ret data where ea: "envoy_agent w (req_type l) (source l) = (ret, data)"
    by (cases "envoy_agent w (req_type l) (source l)")
  let ?s1 = "emit (Envoy_agent (req_type l) (source l)) proc0"
  have f1: "filter P (events ?s1) = filter P [Envoy_agent (req_type l) (source l)]"
    by (simp add: emit_def proc0_def)
  note fx = filter_exit_proc [of P, OF P(1)] filter_err [of P, OF P(1,2)]
    filter_errx [of P, OF P(1,3)]
  show ?thesis
  proof (cases "ret < 0")
    case True
    then show ?thesis
      using parse ea by (simp add: main_def s0 get_agent_def fx f1)
  next
    case False
    then have ret: "0 \<le> ret" by simp
    note m = main_reply [OF parse ea ret, of keys] get_agent_reply [OF ea ret, of proc0]
    define s2 where "s2 = (if source l then source_env w data ?s1 else ?s1)"
    define s3 where "s3 = (if verb l = ACTION_SH_PRINT then print_sh_env data s2
                            else if verb l = ACTION_FISH_PRINT then print_fish_env data s2
                            else s2)"
    have f2: "filter P (events s2) = filter P [Envoy_agent (req_type l) (source l)]"
    proof (cases "source l")
      case True
      have "filter P (events (source_env w data ?s1)) = filter P (events ?s1)"
        using S [OF True] by (intro filter_source_env P Q)
      with True f1 show ?thesis by (simp only: s2_def if_True)
    next
      case False
      with f1 show ?thesis by (simp only: s2_def if_False)
    qed
    have f3: "filter P (events s3) = filter P [Envoy_agent (req_type l) (source l)]"
      by (simp add: s3_def f2 filter_print_sh_env [of P, OF P(4)]
          filter_print_fish_env [of P, OF P(4)])
    note fu = filter_unlock [of P, OF P]
    consider (failed) "status data = ENVOY_FAILED" | (baduser) "status data = ENVOY_BADUSER"
      | (stopped) "status data = ENVOY_STOPPED"
      | (live) "status data = ENVOY_STARTED \<or> status data = ENVOY_RUNNING"
      by (cases "status data") auto
    then show ?thesis
    proof cases
      case failed
      then show ?thesis by (simp add: m fx f1)
    next
      case baduser
      then show ?thesis by (simp add: m fx f1)
    next
      case stopped
      then show ?thesis by (simp add: m fx f1)
    next
      case live
      then have g: "get_agent w (req_type l) (source l) proc0 = Inr (?s1, (ret, data))"
        and ns: "status data \<noteq> ENVOY_STOPPED"
        by (auto simp: m(2))
      have ms: "main w opts keys =
         (case verb l of
            ACTION_NONE \<Rightarrow>
              if status data = ENVOY_RUNNING \<or> type data = AGENT_GPG_AGENT
              then exit_proc 0 s3
              else add_keys w keys s3
          | ACTION_FORCE_ADD \<Rightarrow> add_keys w keys s3
          | ACTION_CLEAR \<Rightarrow>
              if type data = AGENT_GPG_AGENT
              then exit_proc 0 (emit (Kill (pid data) SIGHUP) s3)
              else errx EXIT_FAILURE ''only gpg-agent supports this operation'' s3
          | ACTION_KILL \<Rightarrow> exit_proc 0 (emit (Kill (pid data) SIGTERM) s3)
          | ACTION_LIST \<Rightarrow>
              (let s4 = emit (Execlp ''ssh-add'' [''ssh-add'', ''-l'']) s3
               in if execlp w ''ssh-add'' [''ssh-add'', ''-l''] then (s4, Replaced)
                  else err EXIT_FAILURE ''failed to launch ssh-add'' s4)
          | ACTION_UNLOCK \<Rightarrow>
              (case unlock w data (password l) s3 of
                 Inl e \<Rightarrow> e
               | Inr (s4, r) \<Rightarrow> exit_proc 0 s4)
          | _ \<Rightarrow> exit_proc 0 s3)"
        using ns by (cases "verb l") (simp_all add: m(1) g Let_def s2_def s3_def)
      show ?thesis
      proof (cases "verb l")
        case ACTION_UNLOCK
        then have mu: "main w opts keys =
            (case unlock w data (password l) s3 of Inl e \<Rightarrow> e | Inr (s4, r) \<Rightarrow> exit_proc 0 s4)"
          by (simp add: ms)
        show ?thesis
        proof (cases "unlock w data (password l) s3")
          case (Inl e)
          then obtain s' oc where e: "e = (s', oc)" by (cases e)
          with Inl fu(1) [of w data "password l" s3 s' oc] show ?thesis
            by (simp add: mu f3)
        next
          case (Inr x)
          then obtain s4 r where x: "x = (s4, r)" by (cases x)
          with Inr fu(2) [of w data "password l" s3 s4 r] show ?thesis
            by (simp add: mu f3 fx)
        qed
      qed (simp_all add: ms Let_def fx f3 filter_emit Q filter_add_keys [of P, OF P(1,2) Q(1)])
    qed
  qed
qed

subsection \<open>The unlock loop\<close>

lemma unlock_loop_events:
  "unlock_loop w a pw fps s =
     (s\<lparr>events := events s
          @ map (\<lambda>f. Gpg_preset_passphrase a f (- 1) pw) (takeWhile (preset_ok w pw) fps)
          @ (case dropWhile (preset_ok w pw) fps of
               [] \<Rightarrow> []
             | f # rest \<Rightarrow>
                 [Gpg_preset_passphrase a f (- 1) pw,
                  Warnx (''failed to unlock key '' @ SQ @ f @ SQ)])\<rparr>,
      if list_all (preset_ok w pw) fps then None else Some 1)"
  by (induction fps arbitrary: s) (simp_all add: Let_def preset_ok_def warnx_def emit_def)

lemma list_all_dropWhile: "list_all P xs \<Longrightarrow> dropWhile P xs = [] \<and> takeWhile P xs = xs"
  by (induction xs) auto

lemma not_list_all_dropWhile: "\<not> list_all P xs \<Longrightarrow> \<exists>y ys. dropWhile P xs = y # ys"
  by (induction xs) auto

lemma unlock_result:
  assumes conn: "gpg_agent_connection w (gpg data) = Some a"
    and pw: "pwo = Some pw \<and> s2 = emit (Gpg_agent_connection (gpg data) (Some a)) s
         \<or> pwo = None
           \<and> read_password w (emit (Gpg_agent_connection (gpg data) (Some a)) s) = Inr (s2, (buf, n))
           \<and> pw = c_str buf"
  shows "unlock w data pwo s =
           Inr (s2\<lparr>events := events s2 @ Gpg_keyinfo a # unlock_events w a pw (gpg_keyinfo w a)\<rparr>,
                if list_all (preset_ok w pw) (gpg_keyinfo w a) then 0 else 1)"
proof -
  have step: "unlock w data pwo s =
     (case unlock_loop w a pw (gpg_keyinfo w a) (emit (Gpg_keyinfo a) s2) of
        (s4, Some r) \<Rightarrow> Inr (s4, r)
      | (s4, None) \<Rightarrow> Inr (emit (Gpg_close (Some a)) s4, 0))"
    using conn pw by (auto simp: unlock_def Let_def)
  show ?thesis
  proof (cases "list_all (preset_ok w pw) (gpg_keyinfo w a)")
    case True
    then show ?thesis
      by (simp add: step unlock_loop_events unlock_events_def emit_def list_all_dropWhile)
  next
    case False
    from not_list_all_dropWhile [OF this] obtain y ys
      where "dropWhile (preset_ok w pw) (gpg_keyinfo w a) = y # ys" by blast
    with False show ?thesis
      by (simp add: step unlock_loop_events unlock_events_def emit_def)
  qed
qed

subsection \<open>getline and read_password\<close>

lemma takeWhile_upto:
  "c \<notin> set pw \<Longrightarrow> takeWhile (\<lambda>x. x \<noteq> c) (pw @ c # rest) = pw"
  by (induction pw) auto

lemma dropWhile_upto:
  "c \<notin> set pw \<Longrightarrow> dropWhile (\<lambda>x. x \<noteq> c) (pw @ c # rest) = c # rest"
  by (induction pw) auto

lemma takeWhile_absent: "c \<notin> set inp \<Longrightarrow> takeWhile (\<lambda>x. x \<noteq> c) inp = inp"
  by (induction inp) auto

lemma dropWhile_absent: "c \<notin> set inp \<Longrightarrow> dropWhile (\<lambda>x. x \<noteq> c) inp = []"
  by (induction inp) auto

lemma getline_newline:
  "CHR 0x0A \<notin> set pw \<Longrightarrow> getline (pw @ CHR 0x0A # rest) = Some (pw @ [CHR 0x0A])"
  by (simp add: getline_def takeWhile_upto dropWhile_upto)

lemma getline_eof:
  "CHR 0x0A \<notin> set inp \<Longrightarrow> inp \<noteq> [] \<Longrightarrow> getline inp = Some inp"
  by (simp add: getline_def takeWhile_absent dropWhile_absent)

lemma getline_nonempty: "getline inp = Some line \<Longrightarrow> line \<noteq> []"
  by (cases inp) (auto simp: getline_def split: if_splits)

lemma nat_pred_length: "nat (int (length xs) - 1) = length xs - 1"
  by arith

lemma read_password_line:
  assumes "tcgetattr w = Some t" "tcsetattr w (t\<lparr>c_lflag := c_lflag t AND NOT ECHO\<rparr>)"
    and "getline (stdin w) = Some line"
  shows "password_of (read_password w s) = Some (butlast line)"
    and "nbytes_of (read_password w s) = Some (int (length line) - 1)"
  using assms
  by (simp_all add: read_password_def password_of_def nbytes_of_def Let_def emit_def
      butlast_conv_take nat_pred_length)

lemma read_password_eof:
  assumes "tcgetattr w = Some t" "tcsetattr w (t\<lparr>c_lflag := c_lflag t AND NOT ECHO\<rparr>)"
    and "stdin w = []"
  shows "read_password w s =
           Inl (s\<lparr>events := events s @
                    [Stdout ''Password: '', Atexit_term_cleanup,
                     Tcsetattr (t\<lparr>c_lflag := c_lflag t AND NOT ECHO\<rparr>), Getline,
                     Errx ''failed to read password'', Tcsetattr t],
                  old_termios := t, atexit_registered := True\<rparr>,
                Exited 1)"
  using assms
  by (simp add: read_password_def Let_def emit_def getline_def errx_def exit_proc_def
      term_cleanup_def EXIT_FAILURE_def)

lemma read_password_scenario:
  "read_password (scenario data fps bad (''hunter2'' @ NL)) s =
     Inr (s\<lparr>events := events s @
              [Stdout ''Password: '', Atexit_term_cleanup, Tcsetattr \<lparr>c_lflag = 0x8A33\<rparr>,
               Getline, Tcsetattr \<lparr>c_lflag = 0x8A3B\<rparr>, Stdout NL],
            old_termios := \<lparr>c_lflag = 0x8A3B\<rparr>, atexit_registered := True\<rparr>,
          (''hunter2'', 7))"
  by (simp add: read_password_def scenario_simps Let_def emit_def getline_def NL_def ECHO_def)

subsection \<open>C1: the unlock loop\<close>

text \<open>
  Claim C1 says that the unlock flow presets every fingerprint of \<open>KEYINFO --list\<close> in
  order, warns for each failing one, goes on to the remaining ones and exits with status 1 at
  the end, and exits 0 when every preset succeeds.

  The loop of \<open>unlock\<close> returns at the first failing preset.  With fingerprints \<open>AAAA\<close>
  and \<open>BBBB\<close> and a preset that fails for \<open>AAAA\<close>, only \<open>AAAA\<close> is attempted, and the
  process exits with status 0.
\<close>

theorem unlock_stops_counterexample:
  "gpg_keyinfo (scenario (gpg_reply ENVOY_RUNNING) [''AAAA'', ''BBBB''] [''AAAA''] '''') 3
     = [''AAAA'', ''BBBB'']
   \<and> preset_attempts (events (fst (main
        (scenario (gpg_reply ENVOY_RUNNING) [''AAAA'', ''BBBB''] [''AAAA''] '''')
        [Opt_u (Some ''hunter2'')] []))) = [''AAAA'']
   \<and> snd (main (scenario (gpg_reply ENVOY_RUNNING) [''AAAA'', ''BBBB''] [''AAAA''] '''')
        [Opt_u (Some ''hunter2'')] []) = Exited 0"
  by code_simp

text \<open>
  C1, amended.  Once the connection is open and the passphrase is known (\<open>pw\<close>, from the
  command line, or read from the terminal), \<open>unlock\<close> asks for the fingerprints and presets
  them in order up to and including the first one whose preset fails; at that failure it warns,
  naming that fingerprint, attempts no later fingerprint and returns 1; when no preset fails it
  has preset every fingerprint, closes the connection and returns 0, and \<open>main\<close> then exits
  with status 0.  (The exit status after a failed preset is not part of the statement.)
\<close>

theorem unlock_presets_until_first_failure:
  assumes conn: "gpg_agent_connection w (gpg data) = Some a"
    and pw: "pwo = Some pw \<and> s2 = emit (Gpg_agent_connection (gpg data) (Some a)) s
         \<or> pwo = None
           \<and> read_password w (emit (Gpg_agent_connection (gpg data) (Some a)) s) = Inr (s2, (buf, n))
           \<and> pw = c_str buf"
  shows "unlock w data pwo s =
           Inr (s2\<lparr>events := events s2 @ Gpg_keyinfo a # unlock_events w a pw (gpg_keyinfo w a)\<rparr>,
                if list_all (preset_ok w pw) (gpg_keyinfo w a) then 0 else 1)
       \<and> (main_getopt w opts locals0 proc0 = Inr (s0, l) \<and> verb l = ACTION_UNLOCK
            \<and> password l = pwo
            \<and> envoy_agent w (req_type l) (source l) = (ret, data) \<and> 0 \<le> ret
            \<and> (status data = ENVOY_STARTED \<or> status data = ENVOY_RUNNING)
            \<and> s = after_source_env w l data
            \<and> list_all (preset_ok w pw) (gpg_keyinfo w a) \<longrightarrow>
          main w opts keys =
            exit_proc 0
              (s2\<lparr>events := events s2 @ Gpg_keyinfo a
                     # map (\<lambda>f. Gpg_preset_passphrase a f (- 1) pw) (gpg_keyinfo w a)
                     @ [Gpg_close (Some a)]\<rparr>)
          \<and> snd (main w opts keys) = Exited 0)"
proof (intro conjI impI)
  show u: "unlock w data pwo s =
           Inr (s2\<lparr>events := events s2 @ Gpg_keyinfo a # unlock_events w a pw (gpg_keyinfo w a)\<rparr>,
                if list_all (preset_ok w pw) (gpg_keyinfo w a) then 0 else 1)"
    using unlock_result [OF conn pw] .
  assume a: "main_getopt w opts locals0 proc0 = Inr (s0, l) \<and> verb l = ACTION_UNLOCK
            \<and> password l = pwo
            \<and> envoy_agent w (req_type l) (source l) = (ret, data) \<and> 0 \<le> ret
            \<and> (status data = ENVOY_STARTED \<or> status data = ENVOY_RUNNING)
            \<and> s = after_source_env w l data
            \<and> list_all (preset_ok w pw) (gpg_keyinfo w a)"
  then have parse: "main_getopt w opts locals0 proc0 = Inr (s0, l)"
    and ea: "envoy_agent w (req_type l) (source l) = (ret, data)" and ret: "0 \<le> ret"
    and live: "status data = ENVOY_STARTED \<or> status data = ENVOY_RUNNING"
    and all: "list_all (preset_ok w pw) (gpg_keyinfo w a)"
    by simp_all
  have g: "get_agent w (req_type l) (source l) proc0 = Inr (requested l, (ret, data))"
    using live by (auto simp: get_agent_reply [OF ea ret] requested_def)
  have ns: "status data \<noteq> ENVOY_STOPPED" using live by auto
  have m: "main w opts keys =
      (case unlock w data pwo s of Inl e \<Rightarrow> e | Inr (s4, r) \<Rightarrow> exit_proc 0 s4)"
    using a ns by (simp add: main_reply [OF parse ea ret] g Let_def after_source_env_def)
  show "main w opts keys =
            exit_proc 0
              (s2\<lparr>events := events s2 @ Gpg_keyinfo a
                     # map (\<lambda>f. Gpg_preset_passphrase a f (- 1) pw) (gpg_keyinfo w a)
                     @ [Gpg_close (Some a)]\<rparr>)"
    using all by (simp add: m u unlock_events_def list_all_dropWhile)
  then show "snd (main w opts keys) = Exited 0"
    by (simp add: exit_proc_def)
qed

theorem unlock_presets_until_first_failure_witness:
  "unlock (scenario (gpg_reply ENVOY_RUNNING) [''AAAA'', ''BBBB''] [''AAAA''] '''')
       (gpg_reply ENVOY_RUNNING) (Some ''hunter2'') proc0 =
     Inr (proc0\<lparr>events :=
            [Gpg_agent_connection ''/run/user/1000/gnupg/S.gpg-agent:1234:1'' (Some 3),
             Gpg_keyinfo 3,
             Gpg_preset_passphrase 3 ''AAAA'' (- 1) ''hunter2'',
             Warnx (''failed to unlock key '' @ SQ @ ''AAAA'' @ SQ)]\<rparr>,
          1)
   \<and> main (scenario (gpg_reply ENVOY_RUNNING) [''AAAA'', ''BBBB''] [] '''')
       [Opt_u (Some ''hunter2'')] [] =
     (proc0\<lparr>events :=
        [Envoy_agent AGENT_DEFAULT True,
         Gpg_agent_connection ''/run/user/1000/gnupg/S.gpg-agent:1234:1'' (Some 3),
         Gpg_update_tty (Some 3),
         Gpg_close (Some 3),
         Setenv ''SSH_AUTH_SOCK'' ''/run/user/1000/gnupg/S.gpg-agent.ssh'' True,
         Gpg_agent_connection ''/run/user/1000/gnupg/S.gpg-agent:1234:1'' (Some 3),
         Gpg_keyinfo 3,
         Gpg_preset_passphrase 3 ''AAAA'' (- 1) ''hunter2'',
         Gpg_preset_passphrase 3 ''BBBB'' (- 1) ''hunter2'',
         Gpg_close (Some 3)]\<rparr>,
      Exited 0)
   \<and> unlock (scenario (gpg_reply ENVOY_RUNNING) [''AAAA'', ''BBBB''] [] (''hunter2'' @ NL))
       (gpg_reply ENVOY_RUNNING) None proc0 =
     Inr (\<lparr>events =
            [Gpg_agent_connection ''/run/user/1000/gnupg/S.gpg-agent:1234:1'' (Some 3),
             Stdout ''Password: '', Atexit_term_cleanup, Tcsetattr \<lparr>c_lflag = 0x8A33\<rparr>,
             Getline, Tcsetattr \<lparr>c_lflag = 0x8A3B\<rparr>, Stdout NL,
             Gpg_keyinfo 3,
             Gpg_preset_passphrase 3 ''AAAA'' (- 1) ''hunter2'',
             Gpg_preset_passphrase 3 ''BBBB'' (- 1) ''hunter2'',
             Gpg_close (Some 3)],
           old_termios = \<lparr>c_lflag = 0x8A3B\<rparr>, atexit_registered = True\<rparr>,
          0)"
proof -
  have conn1: "gpg_agent_connection (scenario (gpg_reply ENVOY_RUNNING) [''AAAA'', ''BBBB''] [''AAAA''] '''')
                (gpg (gpg_reply ENVOY_RUNNING)) = Some 3"
    by (simp add: scenario_simps)
  have conn2: "gpg_agent_connection (scenario (gpg_reply ENVOY_RUNNING) [''AAAA'', ''BBBB''] [] '''')
                (gpg (gpg_reply ENVOY_RUNNING)) = Some 3"
    by (simp add: scenario_simps)
  define sa where "sa = after_source_env (scenario (gpg_reply ENVOY_RUNNING) [''AAAA'', ''BBBB''] [] '''')
                     (locals0\<lparr>verb := ACTION_UNLOCK, password := Some ''hunter2''\<rparr>)
                     (gpg_reply ENVOY_RUNNING)"
  have pw: "\<And>w s. Some ''hunter2'' = Some ''hunter2''
              \<and> emit (Gpg_agent_connection (gpg (gpg_reply ENVOY_RUNNING)) (Some 3)) s
                  = emit (Gpg_agent_connection (gpg (gpg_reply ENVOY_RUNNING)) (Some 3)) s
            \<or> Some ''hunter2'' = None
              \<and> read_password w (emit (Gpg_agent_connection (gpg (gpg_reply ENVOY_RUNNING)) (Some 3)) s)
                  = Inr (emit (Gpg_agent_connection (gpg (gpg_reply ENVOY_RUNNING)) (Some 3)) s, ([], 0))
              \<and> ''hunter2'' = c_str []"
    by simp
  note pw1 = pw [where s = proc0]
  note pw2 = pw [where s = sa]
  have 1: "unlock (scenario (gpg_reply ENVOY_RUNNING) [''AAAA'', ''BBBB''] [''AAAA''] '''')
       (gpg_reply ENVOY_RUNNING) (Some ''hunter2'') proc0 =
     Inr (proc0\<lparr>events :=
            [Gpg_agent_connection ''/run/user/1000/gnupg/S.gpg-agent:1234:1'' (Some 3),
             Gpg_keyinfo 3,
             Gpg_preset_passphrase 3 ''AAAA'' (- 1) ''hunter2'',
             Warnx (''failed to unlock key '' @ SQ @ ''AAAA'' @ SQ)]\<rparr>,
          1)"
    using unlock_presets_until_first_failure [OF conn1 pw1, THEN conjunct1]
    by (simp add: scenario_simps unlock_events_def preset_ok_def emit_def proc0_def gpg_reply_def)
  have 2: "main (scenario (gpg_reply ENVOY_RUNNING) [''AAAA'', ''BBBB''] [] '''')
       [Opt_u (Some ''hunter2'')] [] =
     (proc0\<lparr>events :=
        [Envoy_agent AGENT_DEFAULT True,
         Gpg_agent_connection ''/run/user/1000/gnupg/S.gpg-agent:1234:1'' (Some 3),
         Gpg_update_tty (Some 3),
         Gpg_close (Some 3),
         Setenv ''SSH_AUTH_SOCK'' ''/run/user/1000/gnupg/S.gpg-agent.ssh'' True,
         Gpg_agent_connection ''/run/user/1000/gnupg/S.gpg-agent:1234:1'' (Some 3),
         Gpg_keyinfo 3,
         Gpg_preset_passphrase 3 ''AAAA'' (- 1) ''hunter2'',
         Gpg_preset_passphrase 3 ''BBBB'' (- 1) ''hunter2'',
         Gpg_close (Some 3)]\<rparr>,
      Exited 0)"
    using unlock_presets_until_first_failure [OF conn2 pw2,
        where opts = "[Opt_u (Some ''hunter2'')]" and ?s0.0 = proc0
          and l = "locals0\<lparr>verb := ACTION_UNLOCK, password := Some ''hunter2''\<rparr>"
          and ret = 0 and keys = "[]", THEN conjunct2, THEN mp, THEN conjunct1]
    by (simp add: scenario_simps preset_ok_def emit_def proc0_def gpg_reply_def locals0_def
        sa_def after_source_env_def requested_def source_env_def exit_proc_def Let_def)
  have conn3: "gpg_agent_connection
                 (scenario (gpg_reply ENVOY_RUNNING) [''AAAA'', ''BBBB''] [] (''hunter2'' @ NL))
                 (gpg (gpg_reply ENVOY_RUNNING)) = Some 3"
    by (simp add: scenario_simps)
  have pw3: "None = Some ''hunter2''
               \<and> (emit (Gpg_agent_connection (gpg (gpg_reply ENVOY_RUNNING)) (Some 3)) proc0)
                    \<lparr>events := events (emit (Gpg_agent_connection (gpg (gpg_reply ENVOY_RUNNING)) (Some 3)) proc0) @
                       [Stdout ''Password: '', Atexit_term_cleanup, Tcsetattr \<lparr>c_lflag = 0x8A33\<rparr>,
                        Getline, Tcsetattr \<lparr>c_lflag = 0x8A3B\<rparr>, Stdout NL],
                     old_termios := \<lparr>c_lflag = 0x8A3B\<rparr>, atexit_registered := True\<rparr>
                  = emit (Gpg_agent_connection (gpg (gpg_reply ENVOY_RUNNING)) (Some 3)) proc0
             \<or> None = None
               \<and> read_password
                    (scenario (gpg_reply ENVOY_RUNNING) [''AAAA'', ''BBBB''] [] (''hunter2'' @ NL))
                    (emit (Gpg_agent_connection (gpg (gpg_reply ENVOY_RUNNING)) (Some 3)) proc0)
                  = Inr ((emit (Gpg_agent_connection (gpg (gpg_reply ENVOY_RUNNING)) (Some 3)) proc0)
                    \<lparr>events := events (emit (Gpg_agent_connection (gpg (gpg_reply ENVOY_RUNNING)) (Some 3)) proc0) @
                       [Stdout ''Password: '', Atexit_term_cleanup, Tcsetattr \<lparr>c_lflag = 0x8A33\<rparr>,
                        Getline, Tcsetattr \<lparr>c_lflag = 0x8A3B\<rparr>, Stdout NL],
                     old_termios := \<lparr>c_lflag = 0x8A3B\<rparr>, atexit_registered := True\<rparr>,
                    (''hunter2'', 7))
               \<and> ''hunter2'' = c_str ''hunter2''"
    apply (rule disjI2)
    apply (intro conjI)
      apply (rule refl)
     apply (rule read_password_scenario)
    apply (simp add: c_str_def)
    done
  have 3: "unlock (scenario (gpg_reply ENVOY_RUNNING) [''AAAA'', ''BBBB''] [] (''hunter2'' @ NL))
       (gpg_reply ENVOY_RUNNING) None proc0 =
     Inr (\<lparr>events =
            [Gpg_agent_connection ''/run/user/1000/gnupg/S.gpg-agent:1234:1'' (Some 3),
             Stdout ''Password: '', Atexit_term_cleanup, Tcsetattr \<lparr>c_lflag = 0x8A33\<rparr>,
             Getline, Tcsetattr \<lparr>c_lflag = 0x8A3B\<rparr>, Stdout NL,
             Gpg_keyinfo 3,
             Gpg_preset_passphrase 3 ''AAAA'' (- 1) ''hunter2'',
             Gpg_preset_passphrase 3 ''BBBB'' (- 1) ''hunter2'',
             Gpg_close (Some 3)],
           old_termios = \<lparr>c_lflag = 0x8A3B\<rparr>, atexit_registered = True\<rparr>,
          0)"
    using unlock_presets_until_first_failure [OF conn3 pw3, THEN conjunct1]
    by (simp add: scenario_simps unlock_events_def preset_ok_def emit_def proc0_def reply_simps)
  from 1 2 3 show ?thesis by blast
qed

subsection \<open>C2: unlock and the type of the reply\<close>

text \<open>
  Claim C2 says that for the verb Unlock the client requires a gpg-agent reply and fails with
  a usage diagnostic otherwise, so that the preset-passphrase flow only ever runs against a
  gpg-agent reply.

  \<open>main\<close> calls \<open>unlock\<close> without looking at \<open>data.type\<close>.  For \<open>-uhunter2\<close> and an
  ssh-agent reply the whole flow runs when the connection opens, and the process exits 0; when
  the connection does not open the diagnostic is the connection failure.  The sibling verb Clear
  does check the type, with the diagnostic shown last.
\<close>

theorem unlock_runs_on_ssh_agent_reply:
  "type (ssh_reply ENVOY_RUNNING) = AGENT_SSH_AGENT
   \<and> main (scenario (ssh_reply ENVOY_RUNNING) [''AAAA''] [] '''') [Opt_u (Some ''hunter2'')] [] =
     (proc0\<lparr>events :=
        [Envoy_agent AGENT_DEFAULT True,
         Setenv ''SSH_AUTH_SOCK'' ''/run/user/1000/ssh-XXXX/agent.4320'' True,
         Gpg_agent_connection '''' (Some 3),
         Gpg_keyinfo 3,
         Gpg_preset_passphrase 3 ''AAAA'' (- 1) ''hunter2'',
         Gpg_close (Some 3)]\<rparr>,
      Exited 0)
   \<and> main ((scenario (ssh_reply ENVOY_RUNNING) [''AAAA''] [] '''')
              \<lparr>gpg_agent_connection := (\<lambda>path. None)\<rparr>) [Opt_u (Some ''hunter2'')] [] =
     (proc0\<lparr>events :=
        [Envoy_agent AGENT_DEFAULT True,
         Setenv ''SSH_AUTH_SOCK'' ''/run/user/1000/ssh-XXXX/agent.4320'' True,
         Gpg_agent_connection '''' None,
         Err ''failed to open connection to gpg-agent'']\<rparr>,
      Exited 1)
   \<and> main (scenario (ssh_reply ENVOY_RUNNING) [''AAAA''] [] '''') [Opt_k] [] =
     (proc0\<lparr>events :=
        [Envoy_agent AGENT_DEFAULT False,
         Errx ''only gpg-agent supports this operation'']\<rparr>,
      Exited 1)"
  by code_simp

subsection \<open>C3: a Stopped reply\<close>

text \<open>
  Claim C3 says that for a reply with status Stopped the client exits 0 right after the
  optional shell-print step, the export lines of ShPrint and FishPrint still being emitted.

  \<open>main\<close> tests for \<open>ENVOY_STOPPED\<close> before \<open>source_env\<close> and before the prints: for
  \<open>-p\<close> and a Stopped reply nothing is printed.
\<close>

theorem stopped_print_counterexample:
  "main (scenario (ssh_reply ENVOY_STOPPED) [] [] '''') [Opt_p] [] =
     (proc0\<lparr>events := [Envoy_agent AGENT_DEFAULT True]\<rparr>, Exited 0)
   \<and> Stdout (sh_line (''SSH_AUTH_SOCK'', sock (ssh_reply ENVOY_STOPPED)))
        \<notin> set (events (fst (main (scenario (ssh_reply ENVOY_STOPPED) [] [] '''') [Opt_p] [])))"
  by code_simp

text \<open>
  C3, amended.  For every reply with status Stopped, whatever the verb, the client exits with
  status 0 right after receiving the reply: the request is the only thing it has done, and no
  export line is emitted, also for ShPrint and FishPrint.
\<close>

theorem stopped_exits_before_print:
  assumes "main_getopt w opts locals0 proc0 = Inr (s0, l)"
    and "envoy_agent w (req_type l) (source l) = (ret, data)" "0 \<le> ret"
    and "status data = ENVOY_STOPPED"
  shows "main w opts keys = (proc0\<lparr>events := [Envoy_agent (req_type l) (source l)]\<rparr>, Exited 0)"
  using assms(4)
  by (simp add: main_reply [OF assms(1-3)] get_agent_reply [OF assms(2,3)] exit_proc_def
      emit_def proc0_def)

theorem stopped_exits_before_print_witness:
  "main (scenario (gpg_reply ENVOY_STOPPED) [] [] '''') [Opt_K] [] =
     (proc0\<lparr>events := [Envoy_agent AGENT_DEFAULT False]\<rparr>, Exited 0)"
proof -
  have p: "main_getopt (scenario (gpg_reply ENVOY_STOPPED) [] [] '''') [Opt_K] locals0 proc0
              = Inr (proc0, locals0\<lparr>verb := ACTION_KILL, source := False\<rparr>)"
    by simp
  have e: "envoy_agent (scenario (gpg_reply ENVOY_STOPPED) [] [] '''')
              (req_type (locals0\<lparr>verb := ACTION_KILL, source := False\<rparr>))
              (source (locals0\<lparr>verb := ACTION_KILL, source := False\<rparr>))
              = (0, gpg_reply ENVOY_STOPPED)"
    by (simp add: scenario_def)
  have st: "status (gpg_reply ENVOY_STOPPED) = ENVOY_STOPPED"
    by (simp add: gpg_reply_def)
  from stopped_exits_before_print [OF p e _ st, of "[]"] show ?thesis
    by (simp add: locals0_def)
qed

subsection \<open>C4: the default continuation\<close>

text \<open>
  Claim C4 says that for the verbs None, ShPrint and FishPrint the client stops when the agent
  is Running or is a gpg-agent, and otherwise execs \<open>ssh-add\<close> with no key arguments.

  In the \<open>switch\<close> of \<open>main\<close> only \<open>ACTION_NONE\<close> falls through to \<open>add_keys\<close>; the print
  verbs reach \<open>default: break\<close>.  For \<open>-p\<close> and a freshly started ssh-agent the client
  prints and exits 0 without any exec.
\<close>

theorem print_started_counterexample:
  "status (ssh_reply ENVOY_STARTED) \<noteq> ENVOY_RUNNING
   \<and> type (ssh_reply ENVOY_STARTED) \<noteq> AGENT_GPG_AGENT
   \<and> main (scenario (ssh_reply ENVOY_STARTED) [] [] '''') [Opt_p] [] =
     (proc0\<lparr>events :=
        [Envoy_agent AGENT_DEFAULT True,
         Setenv ''SSH_AUTH_SOCK'' ''/run/user/1000/ssh-XXXX/agent.4320'' True,
         Stdout (''export SSH_AUTH_SOCK='' @ SQ @ ''/run/user/1000/ssh-XXXX/agent.4320'' @ SQ @ NL),
         Stdout (''export SSH_AGENT_PID='' @ SQ @ ''4321'' @ SQ @ NL)]\<rparr>,
      Exited 0)
   \<and> exec_calls (events (fst (main (scenario (ssh_reply ENVOY_STARTED) [] [] '''') [Opt_p] []))) = []"
  by code_simp

text \<open>
  C4, amended.  For a reply with status Started or Running: with the verb None the client
  stops with status 0 when the status is Running or the type is gpg-agent, and otherwise calls
  \<open>add_keys\<close> on the arguments left after the options, which (the passwd entry found, the
  exec succeeding) replaces the process by \<open>/usr/bin/ssh-add --\<close> followed by the resolved
  keys, so by \<open>/usr/bin/ssh-add --\<close> alone when no argument is left; with the verbs ShPrint
  and FishPrint the client prints and exits 0, and never execs.
\<close>

theorem default_continuation:
  assumes "main_getopt w opts locals0 proc0 = Inr (s0, l)"
    and "envoy_agent w (req_type l) (source l) = (ret, data)" "0 \<le> ret"
    and "status data = ENVOY_STARTED \<or> status data = ENVOY_RUNNING"
  shows "(verb l = ACTION_NONE \<and> (status data = ENVOY_RUNNING \<or> type data = AGENT_GPG_AGENT) \<longrightarrow>
            main w opts keys = (after_source_env w l data, Exited 0))
       \<and> (verb l = ACTION_NONE \<and> status data \<noteq> ENVOY_RUNNING \<and> type data \<noteq> AGENT_GPG_AGENT \<longrightarrow>
            main w opts keys = add_keys w keys (after_source_env w l data))
       \<and> (verb l = ACTION_NONE \<and> status data \<noteq> ENVOY_RUNNING \<and> type data \<noteq> AGENT_GPG_AGENT
            \<and> getpwuid w = Some pwd \<and> pw_dir pwd = Some home
            \<and> execv w ''/usr/bin/ssh-add''
                 (''/usr/bin/ssh-add'' # ''--'' #
                    map (\<lambda>k. if access w k then k else home @ ''/.ssh/'' @ k) keys) \<longrightarrow>
            main w opts keys =
              (emit (Execv ''/usr/bin/ssh-add''
                       (''/usr/bin/ssh-add'' # ''--'' #
                          map (\<lambda>k. if access w k then k else home @ ''/.ssh/'' @ k) keys))
                 (after_source_env w l data),
               Replaced))
       \<and> (verb l = ACTION_SH_PRINT \<longrightarrow>
            main w opts keys = (print_sh_env data (after_source_env w l data), Exited 0)
            \<and> exec_calls (events (fst (main w opts keys))) = [])
       \<and> (verb l = ACTION_FISH_PRINT \<longrightarrow>
            main w opts keys = (print_fish_env data (after_source_env w l data), Exited 0)
            \<and> exec_calls (events (fst (main w opts keys))) = [])"
proof -
  have g: "get_agent w (req_type l) (source l) proc0 = Inr (requested l, (ret, data))"
    using assms(4) by (auto simp: get_agent_reply [OF assms(2,3)] requested_def)
  have ns: "status data \<noteq> ENVOY_STOPPED" using assms(4) by auto
  have m: "main w opts keys =
     (let s3 = (if verb l = ACTION_SH_PRINT then print_sh_env data (after_source_env w l data)
                else if verb l = ACTION_FISH_PRINT then print_fish_env data (after_source_env w l data)
                else after_source_env w l data)
      in case verb l of
           ACTION_NONE \<Rightarrow>
             if status data = ENVOY_RUNNING \<or> type data = AGENT_GPG_AGENT
             then exit_proc 0 s3
             else add_keys w keys s3
         | ACTION_SH_PRINT \<Rightarrow> exit_proc 0 s3
         | ACTION_FISH_PRINT \<Rightarrow> exit_proc 0 s3
         | _ \<Rightarrow> main w opts keys)"
    using ns
    by (cases "verb l")
       (simp_all add: main_reply [OF assms(1-3)] g Let_def after_source_env_def)
  note r = not_registered_after_source_env [of w l data]
  have sh: "\<not> atexit_registered (print_sh_env data (after_source_env w l data))"
    using r by (simp add: print_sh_env_def emit_def Let_def)
  have fi: "\<not> atexit_registered (print_fish_env data (after_source_env w l data))"
    using r by (simp add: print_fish_env_def emit_def Let_def)
  have xs: "exec_calls (events (print_sh_env data (after_source_env w l data))) = []"
    by (simp add: print_sh_env_def emit_def Let_def exec_calls_after_source_env)
  have xf: "exec_calls (events (print_fish_env data (after_source_env w l data))) = []"
    by (simp add: print_fish_env_def emit_def Let_def exec_calls_after_source_env)
  show ?thesis
  proof (intro conjI impI)
    assume "verb l = ACTION_NONE \<and> (status data = ENVOY_RUNNING \<or> type data = AGENT_GPG_AGENT)"
    then show "main w opts keys = (after_source_env w l data, Exited 0)"
      using r by (auto simp: m Let_def exit_proc_def)
  next
    assume "verb l = ACTION_NONE \<and> status data \<noteq> ENVOY_RUNNING \<and> type data \<noteq> AGENT_GPG_AGENT"
    then show "main w opts keys = add_keys w keys (after_source_env w l data)"
      by (simp add: m Let_def)
  next
    assume a: "verb l = ACTION_NONE \<and> status data \<noteq> ENVOY_RUNNING \<and> type data \<noteq> AGENT_GPG_AGENT
            \<and> getpwuid w = Some pwd \<and> pw_dir pwd = Some home
            \<and> execv w ''/usr/bin/ssh-add''
                 (''/usr/bin/ssh-add'' # ''--'' #
                    map (\<lambda>k. if access w k then k else home @ ''/.ssh/'' @ k) keys)"
    then have "main w opts keys = add_keys w keys (after_source_env w l data)"
      by (simp add: m Let_def)
    also have "\<dots> = (emit (Execv ''/usr/bin/ssh-add''
                       (''/usr/bin/ssh-add'' # ''--'' #
                          map (\<lambda>k. if access w k then k else home @ ''/.ssh/'' @ k) keys))
                 (after_source_env w l data), Replaced)"
      using a add_keys_home [of w pwd home keys] by (simp add: Let_def)
    finally show "main w opts keys =
              (emit (Execv ''/usr/bin/ssh-add''
                       (''/usr/bin/ssh-add'' # ''--'' #
                          map (\<lambda>k. if access w k then k else home @ ''/.ssh/'' @ k) keys))
                 (after_source_env w l data),
               Replaced)" .
  next
    assume v: "verb l = ACTION_SH_PRINT"
    then show p: "main w opts keys = (print_sh_env data (after_source_env w l data), Exited 0)"
      using sh by (simp add: m Let_def exit_proc_def)
    show "exec_calls (events (fst (main w opts keys))) = []"
      by (simp add: p xs)
  next
    assume v: "verb l = ACTION_FISH_PRINT"
    then show p: "main w opts keys = (print_fish_env data (after_source_env w l data), Exited 0)"
      using fi by (simp add: m Let_def exit_proc_def)
    show "exec_calls (events (fst (main w opts keys))) = []"
      by (simp add: p xf)
  qed
qed

theorem default_continuation_witness:
  "main (scenario (ssh_reply ENVOY_STARTED) [] [] '''') [] [] =
     (proc0\<lparr>events :=
        [Envoy_agent AGENT_DEFAULT True,
         Setenv ''SSH_AUTH_SOCK'' ''/run/user/1000/ssh-XXXX/agent.4320'' True,
         Execv ''/usr/bin/ssh-add'' [''/usr/bin/ssh-add'', ''--'']]\<rparr>,
      Replaced)
   \<and> main (scenario (ssh_reply ENVOY_RUNNING) [] [] '''') [] [] =
     (proc0\<lparr>events :=
        [Envoy_agent AGENT_DEFAULT True,
         Setenv ''SSH_AUTH_SOCK'' ''/run/user/1000/ssh-XXXX/agent.4320'' True]\<rparr>,
      Exited 0)
   \<and> exec_calls (events (fst (main (scenario (ssh_reply ENVOY_STARTED) [] [] '''') [Opt_f] []))) = []"
proof -
  have p: "\<And>w. main_getopt w [] locals0 proc0 = Inr (proc0, locals0)"
    by simp
  have pf: "\<And>w. main_getopt w [Opt_f] locals0 proc0
              = Inr (proc0, locals0\<lparr>verb := ACTION_FISH_PRINT\<rparr>)"
    by simp
  have e: "\<And>st l. envoy_agent (scenario (ssh_reply st) [] [] '''') (req_type l) (source l)
              = (0, ssh_reply st)"
    by (simp add: scenario_simps)
  have st: "status (ssh_reply ENVOY_STARTED) = ENVOY_STARTED \<or> status (ssh_reply ENVOY_STARTED) = ENVOY_RUNNING"
    "status (ssh_reply ENVOY_RUNNING) = ENVOY_STARTED \<or> status (ssh_reply ENVOY_RUNNING) = ENVOY_RUNNING"
    by (simp_all add: ssh_reply_def)
  note a = default_continuation [OF p e _ st(1),
      where pwd = "\<lparr>pw_dir = Some ''/home/alice''\<rparr>" and home = "''/home/alice''"
        and keys = "[]", THEN conjunct2, THEN conjunct2, THEN conjunct1, THEN mp]
  note b = default_continuation [OF p e _ st(2),
      where pwd = "\<lparr>pw_dir = Some ''/home/alice''\<rparr>" and home = "''/home/alice''"
        and keys = "[]", THEN conjunct1, THEN mp]
  note c = default_continuation [OF pf e _ st(1),
      where pwd = "\<lparr>pw_dir = Some ''/home/alice''\<rparr>" and home = "''/home/alice''"
        and keys = "[]", THEN conjunct2, THEN conjunct2, THEN conjunct2, THEN conjunct2, THEN mp,
      THEN conjunct2]
  have 1: "main (scenario (ssh_reply ENVOY_STARTED) [] [] '''') [] [] =
     (proc0\<lparr>events :=
        [Envoy_agent AGENT_DEFAULT True,
         Setenv ''SSH_AUTH_SOCK'' ''/run/user/1000/ssh-XXXX/agent.4320'' True,
         Execv ''/usr/bin/ssh-add'' [''/usr/bin/ssh-add'', ''--'']]\<rparr>,
      Replaced)"
    using a
    by (simp add: locals0_def ssh_reply_def scenario_simps after_source_env_def requested_def
        source_env_def emit_def proc0_def)
  have 2: "main (scenario (ssh_reply ENVOY_RUNNING) [] [] '''') [] [] =
     (proc0\<lparr>events :=
        [Envoy_agent AGENT_DEFAULT True,
         Setenv ''SSH_AUTH_SOCK'' ''/run/user/1000/ssh-XXXX/agent.4320'' True]\<rparr>,
      Exited 0)"
    using b
    by (simp add: locals0_def ssh_reply_def scenario_simps after_source_env_def requested_def
        source_env_def emit_def proc0_def)
  have 3: "exec_calls (events (fst (main (scenario (ssh_reply ENVOY_STARTED) [] [] '''') [Opt_f] []))) = []"
    using c by (simp add: locals0_def)
  from 1 2 3 show ?thesis by blast
qed

subsection \<open>C5: the start flag of the request\<close>

text \<open>
  Claim C5 says that the request carries \<open>start = false\<close> exactly when the selected verb is
  Clear or Kill, and that the client's environment is changed only when \<open>start = true\<close>.

  The option loop sets \<open>source = false\<close> at \<open>-k\<close> and \<open>-K\<close> and never sets it back, while
  a later verb option replaces the verb: for \<open>-k -p\<close> the verb is ShPrint and the request
  carries \<open>start = false\<close>.
\<close>

theorem clear_then_print_counterexample:
  "main_getopt (scenario (ssh_reply ENVOY_RUNNING) [] [] '''') [Opt_k, Opt_p] locals0 proc0 =
     Inr (proc0, \<lparr>source = False, password = None, verb = ACTION_SH_PRINT,
                  req_type = AGENT_DEFAULT\<rparr>)
   \<and> filter is_request (events (fst (main (scenario (ssh_reply ENVOY_RUNNING) [] [] '''')
        [Opt_k, Opt_p] []))) = [Envoy_agent AGENT_DEFAULT False]"
  by code_simp

text \<open>
  C5, amended.  For every command line the option loop accepts, the one request sent carries
  \<open>start = false\<close> exactly when \<open>-k\<close> or \<open>-K\<close> is among the options; so it carries
  \<open>start = false\<close> whenever the selected verb is Clear or Kill, and \<open>start = true\<close>
  whenever neither option was given.  When \<open>start = false\<close> the client never calls
  \<open>setenv\<close>.
\<close>

theorem start_flag_follows_clear_kill_options:
  assumes "main_getopt w opts locals0 proc0 = Inr (s0, l)"
  shows "source l = (Opt_k \<notin> set opts \<and> Opt_K \<notin> set opts)
       \<and> (verb l = ACTION_CLEAR \<or> verb l = ACTION_KILL \<longrightarrow> \<not> source l)
       \<and> filter is_request (events (fst (main w opts keys))) = [Envoy_agent (req_type l) (source l)]
       \<and> (\<not> source l \<longrightarrow> filter is_setenv (events (fst (main w opts keys))) = [])"
proof (intro conjI impI)
  show "source l = (Opt_k \<notin> set opts \<and> Opt_K \<notin> set opts)"
    using main_getopt_source [OF assms] by (simp add: locals0_def)
  show "verb l = ACTION_CLEAR \<or> verb l = ACTION_KILL \<Longrightarrow> \<not> source l"
    using main_getopt_verb_source [OF assms] by (simp add: locals0_def)
  show "filter is_request (events (fst (main w opts keys))) = [Envoy_agent (req_type l) (source l)]"
    using filter_main [of is_request l w opts s0 keys, OF _ _ _ _ _ _ _ _ _ _ _ _ _ _ _ _ assms]
    by (simp add: is_request_def)
  assume "\<not> source l"
  then show "filter is_setenv (events (fst (main w opts keys))) = []"
    using filter_main [of is_setenv l w opts s0 keys, OF _ _ _ _ _ _ _ _ _ _ _ _ _ _ _ _ assms]
    by (simp add: is_setenv_def)
qed

theorem start_flag_follows_clear_kill_options_witness:
  "filter is_request (events (fst (main (scenario (gpg_reply ENVOY_RUNNING) [] [] '''') [Opt_K] [])))
     = [Envoy_agent AGENT_DEFAULT False]
   \<and> filter is_setenv (events (fst (main (scenario (gpg_reply ENVOY_RUNNING) [] [] '''') [Opt_K] [])))
     = []"
proof -
  have p: "main_getopt (scenario (gpg_reply ENVOY_RUNNING) [] [] '''') [Opt_K] locals0 proc0
              = Inr (proc0, locals0\<lparr>verb := ACTION_KILL, source := False\<rparr>)"
    by simp
  from start_flag_follows_clear_kill_options [OF p, of "[]"] show ?thesis
    by (simp add: locals0_def)
qed

subsection \<open>C6: connections to the gpg-agent\<close>

text \<open>
  Claim C6 says that every connection to the gpg-agent is closed before the client exits,
  on every path.

  \<open>unlock\<close> calls \<open>gpg_close\<close> only after the loop; the \<open>return 1\<close> inside the loop
  skips it.  With a preset that fails, the connection \<open>unlock\<close> opened is still open when
  the process exits.
\<close>

theorem unlock_leaves_connection_open:
  "open_conns (events (fst (main
        (scenario (gpg_reply ENVOY_RUNNING) [''AAAA'', ''BBBB''] [''AAAA''] '''')
        [Opt_u (Some ''hunter2'')] []))) [] = [3]
   \<and> snd (main (scenario (gpg_reply ENVOY_RUNNING) [''AAAA'', ''BBBB''] [''AAAA''] '''')
        [Opt_u (Some ''hunter2'')] []) = Exited 0"
  by code_simp

subsection \<open>C7: Failed and BadUser replies\<close>

text \<open>
  Claim C7: for every reply with status Failed or BadUser the client aborts with a non-zero
  exit status before any further action, with a diagnostic of its own for each of the two; for
  BadUser it is "connection rejected, user is unauthorized to use this agent".  Here the
  request and the diagnostic are the whole trace.
\<close>

theorem failed_or_baduser_aborts:
  assumes "main_getopt w opts locals0 proc0 = Inr (s0, l)"
    and "envoy_agent w (req_type l) (source l) = (ret, data)" "0 \<le> ret"
  shows "(status data = ENVOY_FAILED \<longrightarrow>
            main w opts keys =
              (proc0\<lparr>events := [Envoy_agent (req_type l) (source l),
                                 Errx (''agent failed to start, check envoyd'' @ SQ @ ''s log'')]\<rparr>,
               Exited EXIT_FAILURE))
       \<and> (status data = ENVOY_BADUSER \<longrightarrow>
            main w opts keys =
              (proc0\<lparr>events := [Envoy_agent (req_type l) (source l),
                                 Errx ''connection rejected, user is unauthorized to use this agent'']\<rparr>,
               Exited EXIT_FAILURE))
       \<and> EXIT_FAILURE \<noteq> 0"
  by (simp add: main_reply [OF assms] get_agent_reply [OF assms(2,3)] errx_def exit_proc_def
      emit_def proc0_def EXIT_FAILURE_def)

theorem failed_or_baduser_aborts_witness:
  "main (scenario (ssh_reply ENVOY_BADUSER) [] [] '''') [] [] =
     (proc0\<lparr>events := [Envoy_agent AGENT_DEFAULT True,
                        Errx ''connection rejected, user is unauthorized to use this agent'']\<rparr>,
      Exited 1)
   \<and> main (scenario (gpg_reply ENVOY_FAILED) [] [] '''') [Opt_K] [] =
     (proc0\<lparr>events := [Envoy_agent AGENT_DEFAULT False,
                        Errx (''agent failed to start, check envoyd'' @ SQ @ ''s log'')]\<rparr>,
      Exited 1)"
proof -
  have p1: "main_getopt (scenario (ssh_reply ENVOY_BADUSER) [] [] '''') [] locals0 proc0
              = Inr (proc0, locals0)"
    by simp
  have e1: "envoy_agent (scenario (ssh_reply ENVOY_BADUSER) [] [] '''')
              (req_type locals0) (source locals0) = (0, ssh_reply ENVOY_BADUSER)"
    by (simp add: scenario_def)
  have p2: "main_getopt (scenario (gpg_reply ENVOY_FAILED) [] [] '''') [Opt_K] locals0 proc0
              = Inr (proc0, locals0\<lparr>verb := ACTION_KILL, source := False\<rparr>)"
    by simp
  have e2: "envoy_agent (scenario (gpg_reply ENVOY_FAILED) [] [] '''')
              (req_type (locals0\<lparr>verb := ACTION_KILL, source := False\<rparr>))
              (source (locals0\<lparr>verb := ACTION_KILL, source := False\<rparr>))
              = (0, gpg_reply ENVOY_FAILED)"
    by (simp add: scenario_def)
  from failed_or_baduser_aborts [OF p1 e1, of "[]"] failed_or_baduser_aborts [OF p2 e2, of "[]"]
  show ?thesis
    by (simp add: ssh_reply_def gpg_reply_def locals0_def EXIT_FAILURE_def)
qed

subsection \<open>C8: key paths of ForceAdd\<close>

text \<open>
  Claim C8: every key argument \<open>k\<close> of ForceAdd is used unchanged when \<open>access(k, F_OK)\<close>
  succeeds and is otherwise rewritten to \<open>pw_dir/.ssh/k\<close>, with the passwd entry of the
  caller (a failed lookup is fatal); the process is then replaced by
  \<open>/usr/bin/ssh-add -- keys...\<close>, by \<open>execv\<close> in the client itself.  The last part says that
  the verb ForceAdd leads \<open>main\<close> to exactly this call, on the arguments left after the
  options.
\<close>

theorem force_add_resolves_key_paths:
  "get_key_path w home k = (if access w k then k else home @ ''/.ssh/'' @ k)
   \<and> (getpwuid w = Some pwd \<and> pw_dir pwd = Some home \<longrightarrow>
        add_keys w keys s =
          (if execv w ''/usr/bin/ssh-add''
                (''/usr/bin/ssh-add'' # ''--'' # map (get_key_path w home) keys)
           then (emit (Execv ''/usr/bin/ssh-add''
                         (''/usr/bin/ssh-add'' # ''--'' # map (get_key_path w home) keys)) s,
                 Replaced)
           else err EXIT_FAILURE ''failed to launch ssh-add''
                  (emit (Execv ''/usr/bin/ssh-add''
                           (''/usr/bin/ssh-add'' # ''--'' # map (get_key_path w home) keys)) s)))
   \<and> (getpwuid w = None \<or> (\<exists>p. getpwuid w = Some p \<and> pw_dir p = None) \<longrightarrow>
        add_keys w keys s = err EXIT_FAILURE ''failed to lookup passwd entry'' s)
   \<and> (main_getopt w opts locals0 proc0 = Inr (s0, l) \<and> verb l = ACTION_FORCE_ADD
        \<and> envoy_agent w (req_type l) (source l) = (ret, data) \<and> 0 \<le> ret
        \<and> (status data = ENVOY_STARTED \<or> status data = ENVOY_RUNNING) \<longrightarrow>
        main w opts keys = add_keys w keys (after_source_env w l data))"
proof (intro conjI impI)
  show "get_key_path w home k = (if access w k then k else home @ ''/.ssh/'' @ k)"
    by (simp add: get_key_path_def)
next
  assume "getpwuid w = Some pwd \<and> pw_dir pwd = Some home"
  then show "add_keys w keys s =
          (if execv w ''/usr/bin/ssh-add''
                (''/usr/bin/ssh-add'' # ''--'' # map (get_key_path w home) keys)
           then (emit (Execv ''/usr/bin/ssh-add''
                         (''/usr/bin/ssh-add'' # ''--'' # map (get_key_path w home) keys)) s,
                 Replaced)
           else err EXIT_FAILURE ''failed to launch ssh-add''
                  (emit (Execv ''/usr/bin/ssh-add''
                           (''/usr/bin/ssh-add'' # ''--'' # map (get_key_path w home) keys)) s))"
    by (simp add: add_keys_def Let_def)
next
  assume "getpwuid w = None \<or> (\<exists>p. getpwuid w = Some p \<and> pw_dir p = None)"
  then show "add_keys w keys s = err EXIT_FAILURE ''failed to lookup passwd entry'' s"
    by (auto simp: add_keys_def)
next
  assume a: "main_getopt w opts locals0 proc0 = Inr (s0, l) \<and> verb l = ACTION_FORCE_ADD
        \<and> envoy_agent w (req_type l) (source l) = (ret, data) \<and> 0 \<le> ret
        \<and> (status data = ENVOY_STARTED \<or> status data = ENVOY_RUNNING)"
  then have parse: "main_getopt w opts locals0 proc0 = Inr (s0, l)"
    and ea: "envoy_agent w (req_type l) (source l) = (ret, data)" and ret: "0 \<le> ret"
    and live: "status data = ENVOY_STARTED \<or> status data = ENVOY_RUNNING"
    by simp_all
  have g: "get_agent w (req_type l) (source l) proc0 = Inr (requested l, (ret, data))"
    using live by (auto simp: get_agent_reply [OF ea ret] requested_def)
  have ns: "status data \<noteq> ENVOY_STOPPED" using live by auto
  show "main w opts keys = add_keys w keys (after_source_env w l data)"
    using a ns by (simp add: main_reply [OF parse ea ret] g Let_def after_source_env_def)
qed

theorem force_add_resolves_key_paths_witness:
  "main (scenario (ssh_reply ENVOY_RUNNING) [] [] '''') [Opt_a] [''id_rsa'', ''extra_key''] =
     (proc0\<lparr>events :=
        [Envoy_agent AGENT_DEFAULT True,
         Setenv ''SSH_AUTH_SOCK'' ''/run/user/1000/ssh-XXXX/agent.4320'' True,
         Execv ''/usr/bin/ssh-add''
           [''/usr/bin/ssh-add'', ''--'', ''id_rsa'', ''/home/alice/.ssh/extra_key'']]\<rparr>,
      Replaced)"
  using force_add_resolves_key_paths
    [where w = "scenario (ssh_reply ENVOY_RUNNING) [] [] ''''"
       and home = "''/home/alice''" and pwd = "\<lparr>pw_dir = Some ''/home/alice''\<rparr>"
       and keys = "[''id_rsa'', ''extra_key'']"
       and s = "after_source_env (scenario (ssh_reply ENVOY_RUNNING) [] [] '''')
                  (locals0\<lparr>verb := ACTION_FORCE_ADD\<rparr>) (ssh_reply ENVOY_RUNNING)"
       and opts = "[Opt_a]" and ?s0.0 = proc0 and l = "locals0\<lparr>verb := ACTION_FORCE_ADD\<rparr>"
       and ret = 0 and data = "ssh_reply ENVOY_RUNNING" and k = "''extra_key''"]
  by (simp add: locals0_def ssh_reply_def scenario_def after_source_env_def requested_def
      source_env_def emit_def proc0_def get_key_path_def)

subsection \<open>C9: the shell prints\<close>

text \<open>
  Claim C9: the POSIX-shell print emits \<open>export\<close> lines for \<open>GPG_AGENT_INFO\<close> (only for
  a gpg-agent reply), \<open>SSH_AUTH_SOCK\<close> and \<open>SSH_AGENT_PID\<close>, in this order, each value
  between single quotes and otherwise unchanged; the fish print emits the same variables in
  the same order as \<open>set -x\<close> statements ended by a semicolon.
\<close>

theorem print_env_lines:
  "events (print_sh_env data s) = events s @ map (\<lambda>nv. Stdout (sh_line nv)) (env_vars data)
   \<and> events (print_fish_env data s) = events s @ map (\<lambda>nv. Stdout (fish_line nv)) (env_vars data)"
  by (simp add: print_sh_env_def print_fish_env_def env_vars_def sh_line_def fish_line_def emit_def)

theorem print_env_lines_witness:
  "events (print_sh_env (ssh_reply ENVOY_RUNNING) proc0) =
     [Stdout (''export SSH_AUTH_SOCK='' @ SQ @ ''/run/user/1000/ssh-XXXX/agent.4320'' @ SQ @ NL),
      Stdout (''export SSH_AGENT_PID='' @ SQ @ ''4321'' @ SQ @ NL)]
   \<and> events (print_fish_env (gpg_reply ENVOY_RUNNING) proc0) =
     [Stdout (''set -x GPG_AGENT_INFO '' @ SQ @ ''/run/user/1000/gnupg/S.gpg-agent:1234:1'' @ SQ @ '';''),
      Stdout (''set -x SSH_AUTH_SOCK '' @ SQ @ ''/run/user/1000/gnupg/S.gpg-agent.ssh'' @ SQ @ '';''),
      Stdout (''set -x SSH_AGENT_PID '' @ SQ @ ''1234'' @ SQ @ '';'')]"
  using print_env_lines [of "ssh_reply ENVOY_RUNNING" proc0, THEN conjunct1]
    print_env_lines [of "gpg_reply ENVOY_RUNNING" proc0, THEN conjunct2]
  by (simp add: env_vars_def sh_line_def fish_line_def reply_simps proc0_def fmt_d_examples)

subsection \<open>C10: read_password\<close>

text \<open>
  Claim C10: \<open>read_password\<close> removes exactly the last byte of the line it reads: the
  newline of a complete line, the last character of the passphrase when the input ends without
  a newline; a line holding only a newline gives the empty passphrase; and the end of input with
  nothing read is fatal.  The terminal calls are taken to succeed.
\<close>

theorem read_password_strips_last_byte:
  assumes "tcgetattr w = Some t" "tcsetattr w (t\<lparr>c_lflag := c_lflag t AND NOT ECHO\<rparr>)"
  shows
    "(getline (stdin w) = Some line \<longrightarrow>
        password_of (read_password w s) = Some (butlast line)
        \<and> nbytes_of (read_password w s) = Some (int (length line) - 1)
        \<and> butlast line @ [last line] = line)
     \<and> (CHR 0x0A \<notin> set pw \<and> stdin w = pw @ CHR 0x0A # rest \<longrightarrow>
        password_of (read_password w s) = Some pw)
     \<and> (CHR 0x0A \<notin> set (pw @ [c]) \<and> stdin w = pw @ [c] \<longrightarrow>
        password_of (read_password w s) = Some pw)
     \<and> (stdin w = CHR 0x0A # rest \<longrightarrow> password_of (read_password w s) = Some [])
     \<and> (stdin w = [] \<longrightarrow>
        (\<exists>s'. read_password w s = Inl (s', Exited EXIT_FAILURE)
              \<and> Errx ''failed to read password'' \<in> set (events s')))"
proof (intro conjI impI)
  assume g: "getline (stdin w) = Some line"
  show "password_of (read_password w s) = Some (butlast line)"
    using read_password_line(1) [OF assms g] .
  show "nbytes_of (read_password w s) = Some (int (length line) - 1)"
    using read_password_line(2) [OF assms g] .
  show "butlast line @ [last line] = line"
    using getline_nonempty [OF g] by simp
next
  assume "CHR 0x0A \<notin> set pw \<and> stdin w = pw @ CHR 0x0A # rest"
  then have "getline (stdin w) = Some (pw @ [CHR 0x0A])"
    by (simp add: getline_newline)
  from read_password_line(1) [OF assms this]
  show "password_of (read_password w s) = Some pw" by simp
next
  assume a: "CHR 0x0A \<notin> set (pw @ [c]) \<and> stdin w = pw @ [c]"
  then have "getline (stdin w) = Some (pw @ [c])"
    using getline_eof [of "pw @ [c]"] by simp
  from read_password_line(1) [OF assms this]
  show "password_of (read_password w s) = Some pw" by simp
next
  assume "stdin w = CHR 0x0A # rest"
  then have "getline (stdin w) = Some [CHR 0x0A]"
    using getline_newline [of "[]" rest] by simp
  from read_password_line(1) [OF assms this]
  show "password_of (read_password w s) = Some []" by simp
next
  assume e: "stdin w = []"
  show "\<exists>s'. read_password w s = Inl (s', Exited EXIT_FAILURE)
              \<and> Errx ''failed to read password'' \<in> set (events s')"
    by (simp add: read_password_eof [OF assms e] EXIT_FAILURE_def)
qed

theorem read_password_strips_last_byte_witness:
  "password_of (read_password (scenario (gpg_reply ENVOY_RUNNING) [] [] (''hunter2'' @ NL)) proc0)
     = Some ''hunter2''
   \<and> nbytes_of (read_password (scenario (gpg_reply ENVOY_RUNNING) [] [] (''hunter2'' @ NL)) proc0)
     = Some 7
   \<and> password_of (read_password (scenario (gpg_reply ENVOY_RUNNING) [] [] ''hunter2'') proc0)
     = Some ''hunter''
   \<and> password_of (read_password (scenario (gpg_reply ENVOY_RUNNING) [] [] NL) proc0) = Some ''''
   \<and> isl (read_password (scenario (gpg_reply ENVOY_RUNNING) [] [] '''') proc0)"
proof -
  have tc: "\<And>inp. tcgetattr (scenario (gpg_reply ENVOY_RUNNING) [] [] inp) = Some \<lparr>c_lflag = 0x8A3B\<rparr>"
    by (simp add: scenario_simps)
  have ts: "\<And>inp. tcsetattr (scenario (gpg_reply ENVOY_RUNNING) [] [] inp)
              (\<lparr>c_lflag = 0x8A3B\<rparr>\<lparr>c_lflag := c_lflag \<lparr>c_lflag = 0x8A3B\<rparr> AND NOT ECHO\<rparr>)"
    by (simp add: scenario_simps)
  note T = read_password_strips_last_byte [OF tc ts]
  have g: "getline (stdin (scenario (gpg_reply ENVOY_RUNNING) [] [] (''hunter2'' @ NL)))
             = Some (''hunter2'' @ NL)"
    by (simp add: scenario_simps getline_def NL_def)
  have 1: "password_of (read_password (scenario (gpg_reply ENVOY_RUNNING) [] [] (''hunter2'' @ NL)) proc0)
     = Some ''hunter2''"
    using T [where pw = "''hunter2''" and rest = "[]", THEN conjunct2, THEN conjunct1, THEN mp]
    by (simp add: scenario_simps NL_def)
  have 2: "nbytes_of (read_password (scenario (gpg_reply ENVOY_RUNNING) [] [] (''hunter2'' @ NL)) proc0)
     = Some 7"
    using T [where line = "''hunter2'' @ NL", THEN conjunct1, THEN mp, OF g, THEN conjunct2,
        THEN conjunct1]
    by (simp add: NL_def)
  have 3: "password_of (read_password (scenario (gpg_reply ENVOY_RUNNING) [] [] ''hunter2'') proc0)
     = Some ''hunter''"
    using T [where pw = "''hunter''" and c = "CHR ''2''",
        THEN conjunct2, THEN conjunct2, THEN conjunct1, THEN mp]
    by (simp add: scenario_simps)
  have 4: "password_of (read_password (scenario (gpg_reply ENVOY_RUNNING) [] [] NL) proc0) = Some ''''"
    using T [where rest = "[]", THEN conjunct2, THEN conjunct2, THEN conjunct2, THEN conjunct1, THEN mp]
    by (simp add: scenario_simps NL_def)
  have 5: "isl (read_password (scenario (gpg_reply ENVOY_RUNNING) [] [] '''') proc0)"
    using T [THEN conjunct2, THEN conjunct2, THEN conjunct2, THEN conjunct2, THEN mp,
        of "[]" proc0]
    by (auto simp: scenario_simps)
  from 1 2 3 4 5 show ?thesis by blast
qed

end
